theory Spec2Isabelle
  imports Main
begin

section \<open>Python values, exceptions and the outside world\<close>

text \<open>
  The script \<^verbatim>\<open>checks/block-height.py\<close> is a straight line of five statements:
  \<^verbatim>\<open>
  response = requests.post("https://polygon-rpc.com/",
                           json={"jsonrpc": "2.0", "method": "eth_blockNumber",
                                 "params": [], "id": 1},
                           timeout=10)
  block_number = int(response.json()["result"], 16)
  print(f"block_number: {block_number}")
  sys.exit(0 if block_number > 0 else 1)
  \<close>
  Every call in it may raise, and no exception is caught. The model threads an explicit
  state (the calls of \<^verbatim>\<open>requests.post\<close>, the lines on standard output, the variable
  \<^verbatim>\<open>block_number\<close>) through the statements and returns how the process ends.

  A Python \<^verbatim>\<open>str\<close> is a list of code points; here it is a \<open>string\<close>, so the model
  covers the strings whose code points are below 256 (one \<open>char\<close> each).
\<close>

text \<open>
  The objects that \<^verbatim>\<open>json.loads\<close> builds and \<^verbatim>\<open>json.dumps\<close> reads. A float
  keeps the text of its literal, a dict the list of its items in insertion order.
\<close>

datatype pyobj =
    PyNone
  | PyBool bool
  | PyInt int
  | PyFloat string
  | PyStr string
  | PyList "pyobj list"
  | PyDict "(string \<times> pyobj) list"

datatype exn =
    ConnectionError
  | SSLError
  | Timeout
  | TooManyRedirects
  | JSONDecodeError
  | RecursionError
  | KeyError
  | TypeError
  | ValueError

record request =
  http_method :: string
  url :: string
  json :: pyobj
  timeout :: nat

text \<open>
  A response as the script reads it: the status code, and what \<^verbatim>\<open>response.json()\<close>
  makes of the body. That call returns the decoded object, or raises: JSONDecodeError when
  the body is not a JSON document, ValueError when the document holds an integer literal
  beyond the interpreter's digit limit, RecursionError when it is nested too deeply.
\<close>

record response =
  status_code :: nat
  body_json :: "exn + pyobj"

record state =
  sent :: "request list"
  stdout :: "string list"
  block_number :: "int option"

definition initial :: state where
  "initial = \<lparr>sent = [], stdout = [], block_number = None\<rparr>"

text \<open>How the interpreter stops: \<^verbatim>\<open>sys.exit(n)\<close>, or an exception nobody caught.\<close>

datatype ending = SystemExit int | Unhandled exn

text \<open>
  The status the parent process sees. CPython ends with status 1 after printing the
  traceback of an unhandled exception.
\<close>

fun exit_status :: "ending \<Rightarrow> int" where
  "exit_status (SystemExit n) = n"
| "exit_status (Unhandled e) = 1"

section \<open>The calls of the script\<close>

subsection \<open>\<^verbatim>\<open>requests.post\<close>, \<^verbatim>\<open>response.json()\<close> and the subscript\<close>

text \<open>
  The library, the network and the remote end are a parameter \<open>net\<close>: what the call
  returns or raises for the request built from its arguments, an exception of
  \<^verbatim>\<open>requests\<close> or the final response. The state records the call in \<open>sent\<close>.
  What the call puts on the wire (redirects followed, the timeout applied to each wait)
  is modelled further down, by \<open>session\<close>, which is such a \<open>net\<close>.
\<close>

definition requests_post ::
  "(request \<Rightarrow> exn + response) \<Rightarrow> string \<Rightarrow> pyobj \<Rightarrow> nat \<Rightarrow> state \<Rightarrow> (exn + response) \<times> state" where
  "requests_post net u j t s =
     (let rq = \<lparr>http_method = ''POST'', url = u, json = j, timeout = t\<rparr>
      in (net rq, s\<lparr>sent := sent s @ [rq]\<rparr>))"

text \<open>\<^verbatim>\<open>response.json()\<close> returns the decoded body or raises, as the response says.\<close>

definition response_json :: "response \<Rightarrow> exn + pyobj" where
  "response_json r = body_json r"

text \<open>
  \<^verbatim>\<open>obj["result"]\<close>: a dict looks the key up and raises KeyError when it is absent;
  a list or a string takes no string index, the other objects take no subscript.
\<close>

fun getitem :: "pyobj \<Rightarrow> string \<Rightarrow> exn + pyobj" where
  "getitem (PyDict kvs) k = (case map_of kvs k of None \<Rightarrow> Inl KeyError | Some v \<Rightarrow> Inr v)"
| "getitem (PyList xs) k = Inl TypeError"
| "getitem (PyStr x) k = Inl TypeError"
| "getitem PyNone k = Inl TypeError"
| "getitem (PyBool b) k = Inl TypeError"
| "getitem (PyInt i) k = Inl TypeError"
| "getitem (PyFloat f) k = Inl TypeError"

subsection \<open>\<^verbatim>\<open>int(s, 16)\<close>\<close>

text \<open>
  CPython's \<^verbatim>\<open>PyLong_FromUnicodeObject\<close> and \<^verbatim>\<open>PyLong_FromString\<close> at base 16.
  \<^verbatim>\<open>Py_ISSPACE\<close> is the ASCII test: tab, line feed, vertical tab, form feed,
  carriage return and space.
\<close>

definition Py_ISSPACE :: "char \<Rightarrow> bool" where
  "Py_ISSPACE c \<longleftrightarrow>
     c = CHR 0x09 \<or> c = CHR 0x0A \<or> c = CHR 0x0B \<or> c = CHR 0x0C \<or> c = CHR 0x0D \<or> c = CHR 0x20"

text \<open>
  \<^verbatim>\<open>Py_UNICODE_ISSPACE\<close> and \<^verbatim>\<open>Py_UNICODE_TODECIMAL\<close> on the code points below 256:
  the spaces are U+0009..U+000D, U+001C..U+001F, U+0020, U+0085 and U+00A0, the decimal
  digits are the ASCII ones.
\<close>

definition Py_UNICODE_ISSPACE :: "char \<Rightarrow> bool" where
  "Py_UNICODE_ISSPACE c \<longleftrightarrow>
     (let n = (of_char c :: nat)
      in (9 \<le> n \<and> n \<le> 13) \<or> (28 \<le> n \<and> n \<le> 32) \<or> n = 133 \<or> n = 160)"

definition Py_UNICODE_TODECIMAL :: "char \<Rightarrow> nat option" where
  "Py_UNICODE_TODECIMAL c =
     (let n = (of_char c :: nat) in if 48 \<le> n \<and> n \<le> 57 then Some (n - 48) else None)"

text \<open>
  \<^verbatim>\<open>_PyUnicode_TransformDecimalAndSpaceToASCII\<close>: an ASCII string is returned as it
  is; otherwise code points below 127 are kept, a Unicode space becomes a blank, a
  Unicode decimal digit its ASCII digit, and the first other code point becomes a
  question mark that ends the string.
\<close>

fun transform_loop :: "string \<Rightarrow> string" where
  "transform_loop [] = []"
| "transform_loop (ch # rest) =
     (if (of_char ch :: nat) < 127 then ch # transform_loop rest
      else if Py_UNICODE_ISSPACE ch then CHR '' '' # transform_loop rest
      else (case Py_UNICODE_TODECIMAL ch of
              None \<Rightarrow> [CHR ''?'']
            | Some decimal \<Rightarrow> char_of (48 + decimal) # transform_loop rest))"

definition PyUnicode_IS_ASCII :: "string \<Rightarrow> bool" where
  "PyUnicode_IS_ASCII u = list_all (\<lambda>ch. (of_char ch :: nat) < 128) u"

definition TransformDecimalAndSpaceToASCII :: "string \<Rightarrow> string" where
  "TransformDecimalAndSpaceToASCII u = (if PyUnicode_IS_ASCII u then u else transform_loop u)"

text \<open>
  \<^verbatim>\<open>_PyLong_DigitValue\<close>: 0..9 for the digits, 10..35 for the letters in either
  case, 37 for every other byte.
\<close>

definition PyLong_DigitValue :: "char \<Rightarrow> nat" where
  "PyLong_DigitValue c =
     (let n = (of_char c :: nat)
      in if 48 \<le> n \<and> n \<le> 57 then n - 48
         else if 97 \<le> n \<and> n \<le> 122 then n - 87
         else if 65 \<le> n \<and> n \<le> 90 then n - 55
         else 37)"

text \<open>
  \<^verbatim>\<open>long_from_binary_base\<close>, first loop: scan over digits and single underscores,
  remembering the previous character; two underscores in a row or an underscore at the
  end are a syntax error. The result is the scanned text and what follows it. (The test
  that the number of digits fits a machine word is left out: no string is that long.)
\<close>

fun scan_digits :: "char \<Rightarrow> string \<Rightarrow> (string \<times> string) option" where
  "scan_digits prev [] = (if prev = CHR ''_'' then None else Some ([], []))"
| "scan_digits prev (c # cs) =
     (if PyLong_DigitValue c < 16 \<or> c = CHR ''_'' then
        (if c = CHR ''_'' \<and> prev = CHR ''_'' then None
         else map_option (\<lambda>(ds, rest). (c # ds, rest)) (scan_digits c cs))
      else if prev = CHR ''_'' then None
      else Some ([], c # cs))"

text \<open>
  Second loop: from the last scanned character back to the first, skipping underscores,
  each digit is placed four bits above the digits already read.
\<close>

fun accumulate :: "string \<Rightarrow> nat" where
  "accumulate [] = 0"
| "accumulate (c # cs) =
     (if c = CHR ''_'' then accumulate cs else PyLong_DigitValue c + 16 * accumulate cs)"

definition long_from_binary_base :: "string \<Rightarrow> (nat \<times> string) option" where
  "long_from_binary_base str =
     map_option (\<lambda>(ds, rest). (accumulate (rev ds), rest)) (scan_digits (CHR 0x00) str)"

text \<open>
  \<^verbatim>\<open>PyLong_FromString(str, &end, 16)\<close>: leading spaces, one sign, the prefix
  \<^verbatim>\<open>0x\<close> or \<^verbatim>\<open>0X\<close> with one underscore allowed after it, the digits (at least one
  character), trailing spaces. \<open>None\<close> is the error exit; otherwise the value and the
  text from \<^verbatim>\<open>end\<close> on, which is empty or starts with a NUL.
\<close>

definition skip_sign :: "string \<Rightarrow> int \<times> string" where
  "skip_sign str =
     (case str of
        [] \<Rightarrow> (1, str)
      | c # r \<Rightarrow> if c = CHR ''+'' then (1, r) else if c = CHR ''-'' then (- 1, r) else (1, str))"

definition skip_prefix :: "string \<Rightarrow> string" where
  "skip_prefix str =
     (case str of
        c0 # c1 # r \<Rightarrow>
          if c0 = CHR ''0'' \<and> (c1 = CHR ''x'' \<or> c1 = CHR ''X'')
          then (case r of [] \<Rightarrow> r | u # r' \<Rightarrow> if u = CHR ''_'' then r' else r)
          else str
      | _ \<Rightarrow> str)"

definition starts_with :: "char \<Rightarrow> string \<Rightarrow> bool" where
  "starts_with c str = (case str of [] \<Rightarrow> False | d # _ \<Rightarrow> d = c)"

definition PyLong_FromString :: "string \<Rightarrow> (int \<times> string) option" where
  "PyLong_FromString str0 =
     (let str1 = dropWhile Py_ISSPACE str0;
          (sign, str2) = skip_sign str1;
          start = skip_prefix str2
      in if starts_with (CHR ''_'') start then None
         else (case long_from_binary_base start of
                 None \<Rightarrow> None
               | Some (z, str3) \<Rightarrow>
                   if length str3 = length start then None
                   else (let str4 = dropWhile Py_ISSPACE str3
                         in if str4 = [] \<or> starts_with (CHR 0x00) str4
                            then Some (sign * int z, str4)
                            else None)))"

definition PyLong_FromUnicodeObject :: "string \<Rightarrow> exn + int" where
  "PyLong_FromUnicodeObject u =
     (case PyLong_FromString (TransformDecimalAndSpaceToASCII u) of
        None \<Rightarrow> Inl ValueError
      | Some (z, end) \<Rightarrow> if end = [] then Inr z else Inl ValueError)"

text \<open>\<^verbatim>\<open>int(x, 16)\<close>: with an explicit base, anything but a string is a TypeError.\<close>

fun int_base16 :: "pyobj \<Rightarrow> exn + int" where
  "int_base16 (PyStr u) = PyLong_FromUnicodeObject u"
| "int_base16 PyNone = Inl TypeError"
| "int_base16 (PyBool b) = Inl TypeError"
| "int_base16 (PyInt i) = Inl TypeError"
| "int_base16 (PyFloat f) = Inl TypeError"
| "int_base16 (PyList xs) = Inl TypeError"
| "int_base16 (PyDict kvs) = Inl TypeError"

subsection \<open>The f-string and \<^verbatim>\<open>print\<close>\<close>

text \<open>The decimal digits of a natural number, most significant first.\<close>

fun decimal_digits :: "nat \<Rightarrow> string" where
  "decimal_digits n =
     (if n < 10 then [char_of (48 + n)]
      else decimal_digits (n div 10) @ [char_of (48 + n mod 10)])"

declare decimal_digits.simps [simp del]

text \<open>
  \<^verbatim>\<open>long_to_decimal_string\<close>, which formats \<^verbatim>\<open>{block_number}\<close>. CPython (3.11, and
  the security releases of 3.7 to 3.10) refuses the conversion with a ValueError when the
  text is longer than 640 characters and has more digits than the interpreter's limit
  \<^verbatim>\<open>sys.get_int_max_str_digits()\<close>; the limit is 4300 unless the environment sets
  another one, and 0 switches the check off. The limit is a parameter of the model; an
  interpreter without the check behaves as one with the limit 0. Parsing at base 16 has
  no such limit.
\<close>

definition default_max_str_digits :: nat where
  "default_max_str_digits = 4300"

text \<open>The text of an integer: a minus sign for a negative one, then the digits.\<close>

definition decimal_text :: "int \<Rightarrow> string" where
  "decimal_text a = (if a < 0 then [CHR ''-''] else []) @ decimal_digits (nat \<bar>a\<bar>)"

definition long_to_decimal_string :: "nat \<Rightarrow> int \<Rightarrow> exn + string" where
  "long_to_decimal_string max_str_digits a =
     (let negative = (if a < 0 then 1 else 0 :: nat);
          str = decimal_text a;
          strlen = length str
      in if 640 < strlen \<and> 0 < max_str_digits \<and> max_str_digits < strlen - negative
         then Inl ValueError
         else Inr str)"

text \<open>\<^verbatim>\<open>print\<close> adds one line to standard output, which is taken to be writable.\<close>

definition print :: "string \<Rightarrow> state \<Rightarrow> state" where
  "print line s = s\<lparr>stdout := stdout s @ [line]\<rparr>"

section \<open>The script\<close>

text \<open>The dict literal handed to \<^verbatim>\<open>json=\<close>.\<close>

definition rpc_request_body :: pyobj where
  "rpc_request_body =
     PyDict [(''jsonrpc'', PyStr ''2.0''),
             (''method'', PyStr ''eth_blockNumber''),
             (''params'', PyList []),
             (''id'', PyInt 1)]"

text \<open>
  The statements in order. An exception ends the run where it is raised, with the state
  reached so far; \<^verbatim>\<open>block_number\<close> is assigned before the f-string is formatted,
  and the line is printed before \<^verbatim>\<open>sys.exit\<close> is called.
\<close>

definition main :: "nat \<Rightarrow> (request \<Rightarrow> exn + response) \<Rightarrow> state \<Rightarrow> ending \<times> state" where
  "main max_str_digits net s0 =
     (case requests_post net ''https://polygon-rpc.com/'' rpc_request_body 10 s0 of
        (Inl e, s1) \<Rightarrow> (Unhandled e, s1)
      | (Inr response, s1) \<Rightarrow>
     (case response_json response of
        Inl e \<Rightarrow> (Unhandled e, s1)
      | Inr body \<Rightarrow>
     (case getitem body ''result'' of
        Inl e \<Rightarrow> (Unhandled e, s1)
      | Inr result \<Rightarrow>
     (case int_base16 result of
        Inl e \<Rightarrow> (Unhandled e, s1)
      | Inr n \<Rightarrow>
     (let s2 = s1\<lparr>block_number := Some n\<rparr>
      in case long_to_decimal_string max_str_digits n of
        Inl e \<Rightarrow> (Unhandled e, s2)
      | Inr text \<Rightarrow>
     (let s3 = print (''block_number: '' @ text) s2
      in (SystemExit (if 0 < n then 0 else 1), s3)))))))"

section \<open>\<^verbatim>\<open>requests.post\<close> on the wire\<close>

text \<open>
  In \<open>main\<close> the parameter \<open>net\<close> is what the one call of \<^verbatim>\<open>requests.post\<close> returns or
  raises. Below that call the library may make several exchanges with servers. One
  exchange, as the network and the server make it: the time it takes to connect, the time
  each read of the response waits, the Location header if there is one, the response.
\<close>

record exchange =
  connect_wait :: nat
  read_waits :: "nat list"
  location :: "string option"
  answer :: response

text \<open>
  Sending one request with \<^verbatim>\<open>timeout=t\<close>: the number bounds the wait for the
  connection and the wait of each read, one by one; a longer wait raises Timeout after
  \<open>t\<close>. The result is the exchange or the exception, and the time waited (nothing is
  said about the time a refused connection takes).
\<close>

definition send :: "(request \<Rightarrow> exn + exchange) \<Rightarrow> request \<Rightarrow> (exn + exchange) \<times> nat" where
  "send wire rq =
     (case wire rq of
        Inl e \<Rightarrow> (Inl e, 0)
      | Inr x \<Rightarrow>
          if timeout rq < connect_wait x then (Inl Timeout, timeout rq)
          else if list_ex (\<lambda>w. timeout rq < w) (read_waits x)
          then (Inl Timeout,
                connect_wait x + sum_list (takeWhile (\<lambda>w. w \<le> timeout rq) (read_waits x)) + timeout rq)
          else (Inr x, connect_wait x + sum_list (read_waits x)))"

text \<open>
  A response is a redirect when it has a Location header and one of the status codes
  301, 302, 303, 307, 308. The request that follows it goes to the new URL with the same
  timeout; \<^verbatim>\<open>rebuild_method\<close> turns it into a GET after 303 and 302 (unless it is a
  HEAD) and after 301 for a POST; every status but 307 and 308 drops the body.
\<close>

definition redirect_target :: "exchange \<Rightarrow> string option" where
  "redirect_target x =
     (if status_code (answer x) \<in> set [301, 302, 303, 307, 308] then location x else None)"

definition rebuild_request :: "request \<Rightarrow> nat \<Rightarrow> string \<Rightarrow> request" where
  "rebuild_request rq status loc =
     (let m = (if status = 303 \<and> http_method rq \<noteq> ''HEAD'' then ''GET''
               else if status = 302 \<and> http_method rq \<noteq> ''HEAD'' then ''GET''
               else if status = 301 \<and> http_method rq = ''POST'' then ''GET''
               else http_method rq);
          body = (if status = 307 \<or> status = 308 then json rq else PyNone)
      in rq\<lparr>http_method := m, url := loc, json := body\<rparr>)"

text \<open>
  \<^verbatim>\<open>Session.resolve_redirects\<close>: redirects are followed one after the other; the
  response to the request after the 30th redirect may not be a redirect again, or
  TooManyRedirects is raised. The result is what the call returns or raises, the requests
  that went out, in order, and the time waited in all.
\<close>

fun resolve_redirects ::
  "(request \<Rightarrow> exn + exchange) \<Rightarrow> nat \<Rightarrow> request \<Rightarrow> (exn + response) \<times> request list \<times> nat" where
  "resolve_redirects wire 0 rq =
     (case send wire rq of
        (Inl e, w) \<Rightarrow> (Inl e, [rq], w)
      | (Inr x, w) \<Rightarrow>
          (case redirect_target x of
             None \<Rightarrow> (Inr (answer x), [rq], w)
           | Some loc \<Rightarrow> (Inl TooManyRedirects, [rq], w)))"
| "resolve_redirects wire (Suc k) rq =
     (case send wire rq of
        (Inl e, w) \<Rightarrow> (Inl e, [rq], w)
      | (Inr x, w) \<Rightarrow>
          (case redirect_target x of
             None \<Rightarrow> (Inr (answer x), [rq], w)
           | Some loc \<Rightarrow>
               (case resolve_redirects wire k (rebuild_request rq (status_code (answer x)) loc) of
                  (out, rqs, w') \<Rightarrow> (out, rq # rqs, w + w'))))"

definition max_redirects :: nat where
  "max_redirects = 30"




section \<open>The vocabulary of the specification\<close>

text \<open>
  The request that the call to \<^verbatim>\<open>requests.post\<close> builds from its arguments, and the
  network that gives one and the same outcome to every request.
\<close>

definition the_request :: request where
  "the_request =
     \<lparr>http_method = ''POST'', url = ''https://polygon-rpc.com/'',
      json = rpc_request_body, timeout = 10\<rparr>"

definition replies :: "exn + response \<Rightarrow> request \<Rightarrow> exn + response" where
  "replies outcome rq = outcome"

text \<open>
  A hexadecimal string as the specification reads it: digits 0-9, a-f, A-F, valued by
  position, most significant digit first. The definitions named \<open>spec_\<close> follow the
  specification's words, not the parser; the lemmas below relate the two.
\<close>

definition spec_hex_digit :: "char \<Rightarrow> bool" where
  "spec_hex_digit c \<longleftrightarrow> c \<in> set ''0123456789abcdefABCDEF''"

definition spec_hex_digit_value :: "char \<Rightarrow> nat" where
  "spec_hex_digit_value c =
     (if c \<in> set ''0123456789'' then of_char c - 48
      else if c \<in> set ''abcdef'' then of_char c - 87
      else of_char c - 55)"

definition spec_hex_value :: "string \<Rightarrow> nat" where
  "spec_hex_value ds = foldl (\<lambda>acc d. 16 * acc + spec_hex_digit_value d) 0 ds"



text \<open>
  The decimal numeral of an integer as the specification reads
  \<^verbatim>\<open>block_number: <integer>\<close>: one or more digits 0-9 without a leading zero (the
  numeral of zero is the single digit 0), valued by position, with a minus sign in front
  for a negative integer.
\<close>

definition spec_decimal_digit :: "char \<Rightarrow> bool" where
  "spec_decimal_digit c \<longleftrightarrow> c \<in> set ''0123456789''"

definition spec_decimal_value :: "string \<Rightarrow> nat" where
  "spec_decimal_value ds = foldl (\<lambda>acc d. 10 * acc + (of_char d - 48)) 0 ds"

definition spec_numeral :: "string \<Rightarrow> nat \<Rightarrow> bool" where
  "spec_numeral ds m \<longleftrightarrow>
     ds \<noteq> [] \<and> list_all spec_decimal_digit ds \<and> (length ds = 1 \<or> \<not> starts_with (CHR ''0'') ds) \<and>
     spec_decimal_value ds = m"

definition spec_integer_text :: "string \<Rightarrow> int \<Rightarrow> bool" where
  "spec_integer_text t n \<longleftrightarrow>
     (if starts_with (CHR ''-'') t then n < 0 \<and> spec_numeral (tl t) (nat (- n))
      else 0 \<le> n \<and> spec_numeral t (nat n))"



text \<open>
  Two servers for the examples. The first answers every request at once. The second
  answers the request to the fixed endpoint with a temporary redirect, and the request
  to the new place with the block number.
\<close>

definition direct_wire :: "request \<Rightarrow> exn + exchange" where
  "direct_wire rq =
     Inr \<lparr>connect_wait = 2, read_waits = [3], location = None,
          answer = \<lparr>status_code = 200,
                    body_json = Inr (PyDict [(''result'', PyStr ''0x1'')])\<rparr>\<rparr>"


section \<open>Auxiliary notions for the proofs\<close>

text \<open>The digit scan stops in front of this text.\<close>

definition stops :: "string \<Rightarrow> bool" where
  "stops rest = (case rest of [] \<Rightarrow> True | c # _ \<Rightarrow> \<not> PyLong_DigitValue c < 16 \<and> c \<noteq> CHR ''_'')"

text \<open>The characters that \<^verbatim>\<open>int\<close> strips from either end of a string.\<close>

definition stripped_space :: "char \<Rightarrow> bool" where
  "stripped_space c \<longleftrightarrow>
     c \<in> set [CHR '' '', CHR 0x09, CHR 0x0A, CHR 0x0B, CHR 0x0C, CHR 0x0D, CHR 0x85, CHR 0xA0]"

text \<open>What the transformation to ASCII does to a digit or a space.\<close>

definition to_blank :: "char \<Rightarrow> char" where
  "to_blank c = (if (of_char c :: nat) < 127 then c else CHR '' '')"

section \<open>The parser on hexadecimal strings\<close>

lemma hex_digit_facts1:
  assumes "spec_hex_digit c"
  shows "PyLong_DigitValue c = spec_hex_digit_value c"
  using assms unfolding spec_hex_digit_def
  apply (simp only: list.set insert_iff empty_iff)
  apply (elim disjE)
  apply (simp_all add: PyLong_DigitValue_def spec_hex_digit_value_def)
  done

lemma hex_digit_facts2:
  assumes "spec_hex_digit c"
  shows "PyLong_DigitValue c < 16"
  using assms unfolding spec_hex_digit_def
  apply (simp only: list.set insert_iff empty_iff)
  apply (elim disjE)
  apply (simp_all add: PyLong_DigitValue_def)
  done

lemma hex_digit_facts3:
  assumes "spec_hex_digit c"
  shows "c \<noteq> CHR ''_''" and "c \<noteq> CHR ''+''" and "c \<noteq> CHR ''-''"
    and "c \<noteq> CHR ''x''" and "c \<noteq> CHR ''X''"
    and "\<not> Py_ISSPACE c"
    and "(of_char c :: nat) < 127"
  using assms unfolding spec_hex_digit_def
  by (auto simp: Py_ISSPACE_def)

lemmas hex_digit_facts = hex_digit_facts1 hex_digit_facts2 hex_digit_facts3

lemma space_facts:
  assumes "Py_ISSPACE c"
  shows "\<not> PyLong_DigitValue c < 16" and "c \<noteq> CHR ''_''" and "(of_char c :: nat) < 127"
  using assms
  by (auto simp: PyLong_DigitValue_def Py_ISSPACE_def)

lemma scan_digits_hex:
  "list_all spec_hex_digit ds \<Longrightarrow> stops rest \<Longrightarrow> prev \<noteq> CHR ''_'' \<Longrightarrow>
   scan_digits prev (ds @ rest) = Some (ds, rest)"
proof (induction ds arbitrary: prev)
  case Nil
  then show ?case by (cases rest) (auto simp: stops_def)
next
  case (Cons d ds)
  then have d: "spec_hex_digit d" and ds: "list_all spec_hex_digit ds" by simp_all
  have "scan_digits d (ds @ rest) = Some (ds, rest)"
    using Cons.IH [OF ds Cons.prems(2) hex_digit_facts(3) [OF d]] .
  then show ?case using hex_digit_facts(2,3) [OF d] by simp
qed

lemma hex_value_snoc: "spec_hex_value (ds @ [d]) = 16 * spec_hex_value ds + spec_hex_digit_value d"
  by (simp add: spec_hex_value_def)

lemma accumulate_hex: "list_all spec_hex_digit ds \<Longrightarrow> accumulate (rev ds) = spec_hex_value ds"
proof (induction ds rule: rev_induct)
  case Nil
  then show ?case by (simp add: spec_hex_value_def)
next
  case (snoc d ds)
  then have d: "spec_hex_digit d" and ds: "list_all spec_hex_digit ds" by simp_all
  show ?case using hex_digit_facts(1,3) [OF d] snoc.IH [OF ds] by (simp add: hex_value_snoc)
qed

lemma long_from_binary_base_hex:
  "list_all spec_hex_digit ds \<Longrightarrow> stops rest \<Longrightarrow>
   long_from_binary_base (ds @ rest) = Some (spec_hex_value ds, rest)"
  by (simp add: long_from_binary_base_def scan_digits_hex accumulate_hex)

lemma dropWhile_spaces: "list_all Py_ISSPACE ws \<Longrightarrow> dropWhile Py_ISSPACE ws = []"
  by (induction ws) auto

lemma stops_spaces: "list_all Py_ISSPACE ws \<Longrightarrow> stops ws"
  by (cases ws) (auto simp: stops_def space_facts)

lemma dropWhile_leading_spaces:
  "list_all Py_ISSPACE ws \<Longrightarrow> \<not> Py_ISSPACE c \<Longrightarrow> dropWhile Py_ISSPACE (ws @ c # cs) = c # cs"
  by (induction ws) auto

lemma PyLong_FromString_shape:
  assumes ws1: "list_all Py_ISSPACE ws1" and ws2: "list_all Py_ISSPACE ws2"
    and ds: "list_all spec_hex_digit (d # ds)"
    and c: "\<not> Py_ISSPACE c"
    and sign: "skip_sign (c # cs) = (sign, str2)"
    and prefix: "skip_prefix str2 = (d # ds) @ ws2"
  shows "PyLong_FromString (ws1 @ c # cs) = Some (sign * int (spec_hex_value (d # ds)), [])"
proof -
  have d: "spec_hex_digit d" using ds by simp
  have start: "\<not> starts_with (CHR ''_'') ((d # ds) @ ws2)"
    using hex_digit_facts(3) [OF d] by (simp add: starts_with_def)
  have digits: "long_from_binary_base ((d # ds) @ ws2) = Some (spec_hex_value (d # ds), ws2)"
    using ds ws2 by (rule long_from_binary_base_hex [OF _ stops_spaces])
  have len: "length ws2 \<noteq> length ((d # ds) @ ws2)" by simp
  show ?thesis
    using start digits len
    by (simp add: PyLong_FromString_def dropWhile_leading_spaces [OF ws1 c] sign prefix
        dropWhile_spaces [OF ws2])
qed


lemma skip_prefix_0x:
  assumes "spec_hex_digit d"
  shows "skip_prefix (''0x'' @ d # ds) = d # ds"
  using hex_digit_facts(3) [OF assms] by (simp add: skip_prefix_def)

lemma skip_sign_hex:
  assumes "spec_hex_digit d"
  shows "skip_sign (d # ds) = (1, d # ds)"
  using hex_digit_facts(4,5) [OF assms] by (simp add: skip_sign_def)

lemma hex_digit_0: "spec_hex_digit (CHR ''0'')"
  by (simp add: spec_hex_digit_def)


lemma PyLong_FromString_0x:
  assumes "list_all Py_ISSPACE ws1" and "list_all Py_ISSPACE ws2"
    and "list_all spec_hex_digit ds" and "ds \<noteq> []"
  shows "PyLong_FromString (ws1 @ ''0x'' @ ds @ ws2) = Some (int (spec_hex_value ds), [])"
proof -
  from assms(4) obtain d ds' where eq: "ds = d # ds'" by (cases ds) auto
  with assms(3) have d: "spec_hex_digit d" and all: "list_all spec_hex_digit (d # ds')" by simp_all
  have "PyLong_FromString (ws1 @ CHR ''0'' # (''x'' @ ds @ ws2)) = Some (1 * int (spec_hex_value (d # ds')), [])"
    using assms(1,2) all hex_digit_facts(8) [OF hex_digit_0] skip_sign_hex [OF hex_digit_0]
  proof (rule PyLong_FromString_shape)
    show "skip_prefix (CHR ''0'' # ''x'' @ ds @ ws2) = (d # ds') @ ws2"
      using skip_prefix_0x [OF d, of "ds' @ ws2"] by (simp add: eq)
  qed
  then show ?thesis by (simp add: eq)
qed

lemma PyLong_FromString_minus_0x:
  assumes "list_all Py_ISSPACE ws1" and "list_all Py_ISSPACE ws2"
    and "list_all spec_hex_digit ds" and "ds \<noteq> []"
  shows "PyLong_FromString (ws1 @ ''-0x'' @ ds @ ws2) = Some (- int (spec_hex_value ds), [])"
proof -
  from assms(4) obtain d ds' where eq: "ds = d # ds'" by (cases ds) auto
  with assms(3) have d: "spec_hex_digit d" and all: "list_all spec_hex_digit (d # ds')" by simp_all
  have minus: "\<not> Py_ISSPACE (CHR ''-'')" by (simp add: Py_ISSPACE_def)
  have sign: "skip_sign (CHR ''-'' # ''0x'' @ ds @ ws2) = (- 1, ''0x'' @ ds @ ws2)"
    by (simp add: skip_sign_def)
  have "PyLong_FromString (ws1 @ CHR ''-'' # (''0x'' @ ds @ ws2)) = Some (- 1 * int (spec_hex_value (d # ds')), [])"
    using assms(1,2) all minus sign
  proof (rule PyLong_FromString_shape)
    show "skip_prefix (''0x'' @ ds @ ws2) = (d # ds') @ ws2"
      using skip_prefix_0x [OF d, of "ds' @ ws2"] by (simp add: eq)
  qed
  then show ?thesis by (simp add: eq)
qed

lemma whitespace_cases:
  "stripped_space c \<Longrightarrow>
   c = CHR '' '' \<or> c = CHR 0x09 \<or> c = CHR 0x0A \<or> c = CHR 0x0B \<or> c = CHR 0x0C \<or> c = CHR 0x0D \<or>
   c = CHR 0x85 \<or> c = CHR 0xA0"
  by (simp add: stripped_space_def)

lemma whitespace_facts1:
  assumes "stripped_space c"
  shows "(of_char c :: nat) < 127 \<or> Py_UNICODE_ISSPACE c"
  using whitespace_cases [OF assms]
  apply (elim disjE)
  apply (simp_all add: Py_UNICODE_ISSPACE_def)
  done

lemma whitespace_facts2:
  assumes "stripped_space c"
  shows "Py_ISSPACE (to_blank c)"
  using whitespace_cases [OF assms]
  apply (elim disjE)
  apply (simp_all add: Py_ISSPACE_def to_blank_def)
  done

lemmas whitespace_facts = whitespace_facts1 whitespace_facts2

lemma transform_loop_map:
  "list_all (\<lambda>c. (of_char c :: nat) < 127 \<or> Py_UNICODE_ISSPACE c) u \<Longrightarrow>
   transform_loop u = map to_blank u"
  by (induction u) (auto simp: to_blank_def)

lemma ascii_map:
  "list_all (\<lambda>c. (of_char c :: nat) < 127 \<or> Py_UNICODE_ISSPACE c) u \<Longrightarrow>
   PyUnicode_IS_ASCII u \<Longrightarrow> map to_blank u = u"
proof (induction u)
  case Nil
  then show ?case by simp
next
  case (Cons c u)
  then have "(of_char c :: nat) < 128" and "(of_char c :: nat) < 127 \<or> Py_UNICODE_ISSPACE c"
    by (simp_all add: PyUnicode_IS_ASCII_def)
  then have "(of_char c :: nat) < 127"
    by (auto simp: Py_UNICODE_ISSPACE_def Let_def)
  with Cons show ?case by (simp add: to_blank_def PyUnicode_IS_ASCII_def)
qed

lemma Transform_map:
  "list_all (\<lambda>c. (of_char c :: nat) < 127 \<or> Py_UNICODE_ISSPACE c) u \<Longrightarrow>
   TransformDecimalAndSpaceToASCII u = map to_blank u"
  by (simp add: TransformDecimalAndSpaceToASCII_def transform_loop_map ascii_map)

lemma to_blank_hex: "list_all spec_hex_digit ds \<Longrightarrow> map to_blank ds = ds"
  by (induction ds) (auto simp: to_blank_def hex_digit_facts(9))

lemma to_blank_spaces: "list_all stripped_space ws \<Longrightarrow> list_all Py_ISSPACE (map to_blank ws)"
  by (induction ws) (auto simp: whitespace_facts(2))

lemma plain_chars:
  "list_all stripped_space ws \<Longrightarrow> list_all (\<lambda>c. (of_char c :: nat) < 127 \<or> Py_UNICODE_ISSPACE c) ws"
  "list_all spec_hex_digit ds \<Longrightarrow> list_all (\<lambda>c. (of_char c :: nat) < 127 \<or> Py_UNICODE_ISSPACE c) ds"
  by (induction ws) (auto simp: whitespace_facts(1) hex_digit_facts(9) list_all_iff)


lemma int_0x:
  assumes "list_all stripped_space ws1" and "list_all stripped_space ws2"
    and "list_all spec_hex_digit ds" and "ds \<noteq> []"
  shows "PyLong_FromUnicodeObject (ws1 @ ''0x'' @ ds @ ws2) = Inr (int (spec_hex_value ds))"
proof -
  have "TransformDecimalAndSpaceToASCII (ws1 @ ''0x'' @ ds @ ws2) =
        map to_blank ws1 @ ''0x'' @ ds @ map to_blank ws2"
    using assms(1,2,3) by (simp add: Transform_map plain_chars to_blank_hex to_blank_def)
  then show ?thesis
    using PyLong_FromString_0x [OF to_blank_spaces [OF assms(1)] to_blank_spaces [OF assms(2)] assms(3,4)]
    by (simp add: PyLong_FromUnicodeObject_def)
qed

lemma int_minus_0x:
  assumes "list_all stripped_space ws1" and "list_all stripped_space ws2"
    and "list_all spec_hex_digit ds" and "ds \<noteq> []"
  shows "PyLong_FromUnicodeObject (ws1 @ ''-0x'' @ ds @ ws2) = Inr (- int (spec_hex_value ds))"
proof -
  have "TransformDecimalAndSpaceToASCII (ws1 @ ''-0x'' @ ds @ ws2) =
        map to_blank ws1 @ ''-0x'' @ ds @ map to_blank ws2"
    using assms(1,2,3) by (simp add: Transform_map plain_chars to_blank_hex to_blank_def)
  then show ?thesis
    using PyLong_FromString_minus_0x [OF to_blank_spaces [OF assms(1)] to_blank_spaces [OF assms(2)] assms(3,4)]
    by (simp add: PyLong_FromUnicodeObject_def)
qed

lemma decimal_digits_longer: "10 ^ k \<le> n \<Longrightarrow> k < length (decimal_digits n)"
proof (induction k arbitrary: n)
  case 0
  show ?case by (subst decimal_digits.simps) simp
next
  case (Suc k)
  then have "10 \<le> n" and "10 ^ k \<le> n div 10"
    using le_trans [of "10 ^ 1" "10 ^ Suc k" n] by (simp_all add: less_eq_div_iff_mult_less_eq)
  then show ?case using Suc.IH [of "n div 10"] by (subst decimal_digits.simps) simp
qed

lemma decimal_digits_shorter: "n < 10 ^ k \<Longrightarrow> 0 < k \<Longrightarrow> length (decimal_digits n) \<le> k"
proof (induction k arbitrary: n)
  case 0
  then show ?case by simp
next
  case (Suc k)
  show ?case
  proof (cases "n < 10")
    case True
    then show ?thesis by (subst decimal_digits.simps) simp
  next
    case False
    with Suc.prems have "0 < k" by (cases k) auto
    moreover from Suc.prems have "n div 10 < 10 ^ k" by (simp add: div_less_iff_less_mult mult.commute)
    ultimately have "length (decimal_digits (n div 10)) \<le> k" by (rule Suc.IH [rotated])
    with False show ?thesis by (subst decimal_digits.simps) simp
  qed
qed

lemma hex_value_zeros: "spec_hex_value (ds @ replicate k (CHR ''0'')) = spec_hex_value ds * 16 ^ k"
proof (induction k)
  case 0
  show ?case by simp
next
  case (Suc k)
  have "spec_hex_value (ds @ replicate (Suc k) (CHR ''0'')) = spec_hex_value ((ds @ replicate k (CHR ''0'')) @ [CHR ''0''])"
    by (simp add: replicate_append_same)
  also have "\<dots> = 16 * spec_hex_value (ds @ replicate k (CHR ''0''))"
    unfolding hex_value_snoc by (simp add: spec_hex_digit_value_def)
  finally show ?case by (simp add: Suc.IH)
qed

lemma power_bound: "(10::nat) ^ (43 * 100) \<le> 16 ^ (36 * 100)"
proof -
  have "(10::nat) ^ 43 \<le> 16 ^ 36" by simp
  then have "((10::nat) ^ 43) ^ 100 \<le> (16 ^ 36) ^ 100" by (rule power_mono) simp
  then show ?thesis by (simp only: power_mult)
qed

section \<open>The paths through the script\<close>

lemma main_post_raises:
  "net the_request = Inl e \<Longrightarrow>
   main lim net s = (Unhandled e, s\<lparr>sent := sent s @ [the_request]\<rparr>)"
  by (simp add: main_def requests_post_def the_request_def)

lemma main_not_json:
  "net the_request = Inr r \<Longrightarrow> body_json r = Inl e \<Longrightarrow>
   main lim net s = (Unhandled e, s\<lparr>sent := sent s @ [the_request]\<rparr>)"
  by (simp add: main_def requests_post_def the_request_def response_json_def)

lemma main_no_result:
  "net the_request = Inr r \<Longrightarrow> body_json r = Inr j \<Longrightarrow> getitem j ''result'' = Inl e \<Longrightarrow>
   main lim net s = (Unhandled e, s\<lparr>sent := sent s @ [the_request]\<rparr>)"
  by (simp add: main_def requests_post_def the_request_def response_json_def)

lemma main_not_int:
  "net the_request = Inr r \<Longrightarrow> body_json r = Inr j \<Longrightarrow> getitem j ''result'' = Inr v \<Longrightarrow>
   int_base16 v = Inl e \<Longrightarrow>
   main lim net s = (Unhandled e, s\<lparr>sent := sent s @ [the_request]\<rparr>)"
  by (simp add: main_def requests_post_def the_request_def response_json_def)

lemma main_not_formatted:
  "net the_request = Inr r \<Longrightarrow> body_json r = Inr j \<Longrightarrow> getitem j ''result'' = Inr v \<Longrightarrow>
   int_base16 v = Inr n \<Longrightarrow> long_to_decimal_string lim n = Inl e \<Longrightarrow>
   main lim net s = (Unhandled e, s\<lparr>sent := sent s @ [the_request], block_number := Some n\<rparr>)"
  by (simp add: main_def requests_post_def the_request_def response_json_def)

lemma main_exits:
  "net the_request = Inr r \<Longrightarrow> body_json r = Inr j \<Longrightarrow> getitem j ''result'' = Inr v \<Longrightarrow>
   int_base16 v = Inr n \<Longrightarrow> long_to_decimal_string lim n = Inr txt \<Longrightarrow>
   main lim net s =
     (SystemExit (if 0 < n then 0 else 1),
      s\<lparr>sent := sent s @ [the_request], block_number := Some n,
        stdout := stdout s @ [''block_number: '' @ txt]\<rparr>)"
  by (simp add: main_def requests_post_def the_request_def response_json_def print_def)

lemma decimal_text_length: "length (decimal_text a) = (if a < 0 then 1 else 0) + length (decimal_digits (nat \<bar>a\<bar>))"
  by (simp add: decimal_text_def)

lemma to_decimal_within:
  "lim = 0 \<or> length (decimal_digits (nat \<bar>a\<bar>)) \<le> lim \<Longrightarrow>
   long_to_decimal_string lim a = Inr (decimal_text a)"
  by (auto simp: long_to_decimal_string_def decimal_text_length)

lemma to_decimal_short:
  "length (decimal_digits (nat \<bar>a\<bar>)) < 640 \<Longrightarrow> long_to_decimal_string lim a = Inr (decimal_text a)"
  by (auto simp: long_to_decimal_string_def decimal_text_length)

lemma to_decimal_beyond:
  assumes "10 ^ lim \<le> nat \<bar>a\<bar>" and "640 \<le> lim"
  shows "long_to_decimal_string lim a = Inl ValueError"
proof -
  have "lim < length (decimal_digits (nat \<bar>a\<bar>))"
    using assms(1) by (rule decimal_digits_longer)
  then show ?thesis using assms(2)
    by (auto simp: long_to_decimal_string_def decimal_text_length)
qed

lemma digit_chars:
  "char_of (48::nat) = CHR ''0''" "char_of (49::nat) = CHR ''1''" "char_of (50::nat) = CHR ''2''"
  "char_of (51::nat) = CHR ''3''" "char_of (52::nat) = CHR ''4''" "char_of (53::nat) = CHR ''5''"
  "char_of (54::nat) = CHR ''6''" "char_of (55::nat) = CHR ''7''" "char_of (56::nat) = CHR ''8''"
  "char_of (57::nat) = CHR ''9''"
  by code_simp+

lemmas decimal_defs = decimal_text_def decimal_digits.simps digit_chars

lemma decimal_text_0: "decimal_text 0 = ''0''"
  by (simp add: decimal_defs)

lemmas int_defs =
  PyLong_FromUnicodeObject_def TransformDecimalAndSpaceToASCII_def PyUnicode_IS_ASCII_def
  PyLong_FromString_def Py_ISSPACE_def skip_sign_def skip_prefix_def starts_with_def
  long_from_binary_base_def PyLong_DigitValue_def

lemma int_0x0: "PyLong_FromUnicodeObject ''0x0'' = Inr 0"
  by (simp add: int_defs)

text \<open>Every run takes one of four shapes.\<close>

lemma main_cases:
  obtains
    (post) e where "net the_request = Inl e"
      "main lim net s = (Unhandled e, s\<lparr>sent := sent s @ [the_request]\<rparr>)"
  | (fault) e where "main lim net s = (Unhandled e, s\<lparr>sent := sent s @ [the_request]\<rparr>)"
  | (format) r j v n e where "net the_request = Inr r" "body_json r = Inr j"
      "getitem j ''result'' = Inr v" "int_base16 v = Inr n"
      "long_to_decimal_string lim n = Inl e"
      "main lim net s = (Unhandled e, s\<lparr>sent := sent s @ [the_request], block_number := Some n\<rparr>)"
  | (exit) r j v n where "net the_request = Inr r" "body_json r = Inr j"
      "getitem j ''result'' = Inr v" "int_base16 v = Inr n"
      "long_to_decimal_string lim n = Inr (decimal_text n)"
      "main lim net s =
         (SystemExit (if 0 < n then 0 else 1),
          s\<lparr>sent := sent s @ [the_request], block_number := Some n,
            stdout := stdout s @ [''block_number: '' @ decimal_text n]\<rparr>)"
proof (cases "net the_request")
  case (Inl e)
  then show ?thesis using post [of e] main_post_raises [of net e lim s] by blast
next
  case (Inr r)
  note r = this
  show ?thesis
  proof (cases "body_json r")
    case (Inl e)
    then show ?thesis using fault main_not_json [of net r e lim s] r by blast
  next
    case (Inr j)
    note j = this
    show ?thesis
    proof (cases "getitem j ''result''")
      case (Inl e)
      then show ?thesis using fault main_no_result [of net r j _ lim s] r j by blast
    next
      case (Inr v)
      note v = this
      show ?thesis
      proof (cases "int_base16 v")
        case (Inl e)
        then show ?thesis using fault main_not_int [of net r j v _ lim s] r j v by blast
      next
        case (Inr n)
        note n = this
        show ?thesis
        proof (cases "long_to_decimal_string lim n")
          case (Inl e)
          then show ?thesis using format [of r j v n] main_not_formatted [of net r j v n lim _ s] r j v n by blast
        next
          case (Inr str)
          then have str: "str = decimal_text n"
            by (auto simp: long_to_decimal_string_def Let_def split: if_splits)
          show ?thesis
            using exit [of r j v n] main_exits [of net r j v n lim str s] r j v n Inr unfolding str by blast
        qed
      qed
    qed
  qed
qed

lemma main_depends_on_body_only:
  assumes "net1 the_request = Inr r1" and "net2 the_request = Inr r2"
    and "body_json r1 = body_json r2"
  shows "main lim net1 s = main lim net2 s"
  using assms by (simp add: main_def requests_post_def the_request_def response_json_def)

lemma int_minus_0x1: "PyLong_FromUnicodeObject ''-0x1'' = Inr (- 1)"
  by (simp add: int_defs)

lemma decimal_text_minus_1: "decimal_text (- 1) = ''-1''"
  by (simp add: decimal_defs)

lemma run_minus_0x1:
  "main default_max_str_digits
     (replies (Inr \<lparr>status_code = 200, body_json = Inr (PyDict [(''result'', PyStr ''-0x1'')])\<rparr>))
     initial =
   (SystemExit 1, \<lparr>sent = [the_request], stdout = [''block_number: -1''], block_number = Some (- 1)\<rparr>)"
proof -
  have "long_to_decimal_string default_max_str_digits (- 1) = Inr ''-1''"
    by (simp add: long_to_decimal_string_def decimal_text_minus_1)
  then show ?thesis
    using main_exits [of "replies (Inr \<lparr>status_code = 200, body_json = Inr (PyDict [(''result'', PyStr ''-0x1'')])\<rparr>)"
        "\<lparr>status_code = 200, body_json = Inr (PyDict [(''result'', PyStr ''-0x1'')])\<rparr>"
        "PyDict [(''result'', PyStr ''-0x1'')]" "PyStr ''-0x1''" "- 1" default_max_str_digits "''-1''" initial]
    by (simp add: replies_def initial_def int_minus_0x1)
qed

lemma int_0x1: "PyLong_FromUnicodeObject ''0x1'' = Inr 1"
  by (simp add: int_defs)

lemma decimal_text_1: "decimal_text 1 = ''1''"
  by (simp add: decimal_defs)

lemma int_0xzz: "PyLong_FromUnicodeObject ''0xzz'' = Inl ValueError"
  by (simp add: int_defs)

lemma int_0x1a2b3c: "PyLong_FromUnicodeObject ''0x1a2b3c'' = Inr 1715004"
  by (simp add: int_defs)

lemma decimal_text_1715004: "decimal_text 1715004 = ''1715004''"
  by (simp add: decimal_defs)

lemma run_0x1a2b3c:
  "main default_max_str_digits
     (replies (Inr \<lparr>status_code = 200, body_json = Inr (PyDict [(''result'', PyStr ''0x1a2b3c'')])\<rparr>))
     initial =
   (SystemExit 0,
    \<lparr>sent = [the_request], stdout = [''block_number: 1715004''], block_number = Some 1715004\<rparr>)"
proof -
  have "long_to_decimal_string default_max_str_digits 1715004 = Inr ''1715004''"
    by (simp add: long_to_decimal_string_def decimal_text_1715004)
  then show ?thesis
    using main_exits [of "replies (Inr \<lparr>status_code = 200, body_json = Inr (PyDict [(''result'', PyStr ''0x1a2b3c'')])\<rparr>)"
        "\<lparr>status_code = 200, body_json = Inr (PyDict [(''result'', PyStr ''0x1a2b3c'')])\<rparr>"
        "PyDict [(''result'', PyStr ''0x1a2b3c'')]" "PyStr ''0x1a2b3c''" 1715004 default_max_str_digits
        "''1715004''" initial]
    by (simp add: replies_def initial_def int_0x1a2b3c)
qed


lemma main_within_limit:
  assumes "net the_request = Inr r" and "body_json r = Inr j" and "getitem j ''result'' = Inr v"
    and "int_base16 v = Inr n" and "lim = 0 \<or> length (decimal_digits (nat \<bar>n\<bar>)) \<le> lim"
  shows "main lim net s =
     (SystemExit (if 0 < n then 0 else 1),
      s\<lparr>sent := sent s @ [the_request], block_number := Some n,
        stdout := stdout s @ [''block_number: '' @ decimal_text n]\<rparr>)"
  using main_exits [of net r j v n lim "decimal_text n" s] assms to_decimal_within [of lim n]
  by simp

lemma main_beyond_limit:
  assumes "net the_request = Inr r" and "body_json r = Inr j" and "getitem j ''result'' = Inr v"
    and "int_base16 v = Inr n" and "10 ^ lim \<le> nat \<bar>n\<bar>" and "640 \<le> lim"
  shows "main lim net s =
     (Unhandled ValueError, s\<lparr>sent := sent s @ [the_request], block_number := Some n\<rparr>)"
  using main_not_formatted [of net r j v n lim ValueError s] assms to_decimal_beyond [of lim n]
  by simp

lemma block_number_after_parse:
  assumes "net the_request = Inr r" and "body_json r = Inr j" and "getitem j ''result'' = Inr v"
    and "int_base16 v = Inr n"
  shows "block_number (snd (main lim net s)) = Some n"
proof (cases "long_to_decimal_string lim n")
  case (Inl e)
  then show ?thesis using main_not_formatted [of net r j v n lim e s] assms by simp
next
  case (Inr str)
  then show ?thesis using main_exits [of net r j v n lim str s] assms by simp
qed

lemma hex_zeros: "list_all spec_hex_digit ds \<Longrightarrow> list_all spec_hex_digit (ds @ replicate k (CHR ''0''))"
  by (auto simp: list_all_iff hex_digit_0)

lemma beyond_limit:
  assumes "10 ^ lim \<le> (16::nat) ^ k" and "0 < spec_hex_value ds"
  shows "10 ^ lim \<le> nat \<bar>int (spec_hex_value (ds @ replicate k (CHR ''0'')))\<bar>"
    and "10 ^ lim \<le> nat \<bar>- int (spec_hex_value (ds @ replicate k (CHR ''0'')))\<bar>"
proof -
  have "(16::nat) ^ k \<le> spec_hex_value ds * 16 ^ k" using assms(2) by simp
  with assms(1) have "10 ^ lim \<le> spec_hex_value ds * 16 ^ k" by (rule le_trans)
  then have le: "10 ^ lim \<le> spec_hex_value (ds @ replicate k (CHR ''0''))"
    by (simp only: hex_value_zeros)
  have "nat \<bar>int (spec_hex_value (ds @ replicate k (CHR ''0'')))\<bar> = spec_hex_value (ds @ replicate k (CHR ''0''))"
    by simp
  with le show "10 ^ lim \<le> nat \<bar>int (spec_hex_value (ds @ replicate k (CHR ''0'')))\<bar>"
    by (simp only:)
  have "nat \<bar>- int (spec_hex_value (ds @ replicate k (CHR ''0'')))\<bar> = spec_hex_value (ds @ replicate k (CHR ''0''))"
    by simp
  with le show "10 ^ lim \<le> nat \<bar>- int (spec_hex_value (ds @ replicate k (CHR ''0'')))\<bar>"
    by (simp only:)
qed

lemma parse_zeros:
  assumes "list_all spec_hex_digit ds" and "0 < spec_hex_value ds"
  shows "int_base16 (PyStr (''0x'' @ ds @ replicate k (CHR ''0''))) =
           Inr (int (spec_hex_value (ds @ replicate k (CHR ''0''))))"
    and "int_base16 (PyStr (''-0x'' @ ds @ replicate k (CHR ''0''))) =
           Inr (- int (spec_hex_value (ds @ replicate k (CHR ''0''))))"
    and "0 < spec_hex_value (ds @ replicate k (CHR ''0''))"
proof -
  have ne: "ds @ replicate k (CHR ''0'') \<noteq> []"
    using assms(2) by (auto simp: spec_hex_value_def)
  have "PyLong_FromUnicodeObject ([] @ ''0x'' @ (ds @ replicate k (CHR ''0'')) @ []) =
        Inr (int (spec_hex_value (ds @ replicate k (CHR ''0''))))"
    using hex_zeros [OF assms(1)] ne by (intro int_0x) simp_all
  then show "int_base16 (PyStr (''0x'' @ ds @ replicate k (CHR ''0''))) =
           Inr (int (spec_hex_value (ds @ replicate k (CHR ''0''))))"
    by simp
  have "PyLong_FromUnicodeObject ([] @ ''-0x'' @ (ds @ replicate k (CHR ''0'')) @ []) =
        Inr (- int (spec_hex_value (ds @ replicate k (CHR ''0''))))"
    using hex_zeros [OF assms(1)] ne by (intro int_minus_0x) simp_all
  then show "int_base16 (PyStr (''-0x'' @ ds @ replicate k (CHR ''0''))) =
           Inr (- int (spec_hex_value (ds @ replicate k (CHR ''0''))))"
    by simp
  show "0 < spec_hex_value (ds @ replicate k (CHR ''0''))"
    using assms(2) by (simp add: hex_value_zeros)
qed

lemma power_bound_default: "10 ^ default_max_str_digits \<le> (16::nat) ^ 3600"
proof -
  have a: "default_max_str_digits = 43 * 100" by (simp add: default_max_str_digits_def)
  have b: "(3600::nat) = 36 * 100" by simp
  show ?thesis unfolding a b by (rule power_bound)
qed

lemma limit_640: "640 \<le> default_max_str_digits"
  by (simp add: default_max_str_digits_def)

lemma run_beyond_limit:
  assumes "10 ^ lim \<le> (16::nat) ^ k" and "640 \<le> lim"
    and "list_all spec_hex_digit ds" and "0 < spec_hex_value ds"
  shows "main lim
      (replies (Inr \<lparr>status_code = c,
         body_json = Inr (PyDict [(''result'', PyStr (''0x'' @ ds @ replicate k (CHR ''0'')))])\<rparr>)) s =
     (Unhandled ValueError,
      s\<lparr>sent := sent s @ [the_request],
        block_number := Some (int (spec_hex_value (ds @ replicate k (CHR ''0''))))\<rparr>)"
proof -
  have ne: "ds @ replicate k (CHR ''0'') \<noteq> []"
    using assms(4) by (auto simp: spec_hex_value_def)
  have "PyLong_FromUnicodeObject ([] @ ''0x'' @ (ds @ replicate k (CHR ''0'')) @ []) =
        Inr (int (spec_hex_value (ds @ replicate k (CHR ''0''))))"
    using hex_zeros [OF assms(3)] ne by (intro int_0x) simp_all
  then have parse: "int_base16 (PyStr (''0x'' @ ds @ replicate k (CHR ''0''))) =
        Inr (int (spec_hex_value (ds @ replicate k (CHR ''0''))))"
    by simp
  show ?thesis
    using main_beyond_limit
      [of "replies (Inr \<lparr>status_code = c,
         body_json = Inr (PyDict [(''result'', PyStr (''0x'' @ ds @ replicate k (CHR ''0'')))])\<rparr>)"
        "\<lparr>status_code = c,
         body_json = Inr (PyDict [(''result'', PyStr (''0x'' @ ds @ replicate k (CHR ''0'')))])\<rparr>"
        "PyDict [(''result'', PyStr (''0x'' @ ds @ replicate k (CHR ''0'')))]"
        "PyStr (''0x'' @ ds @ replicate k (CHR ''0''))"
        "int (spec_hex_value (ds @ replicate k (CHR ''0'')))" lim s]
      parse beyond_limit(1) [OF assms(1,4)] assms(2)
    by (simp add: replies_def)
qed

lemma run_beyond_limit_minus:
  assumes "10 ^ lim \<le> (16::nat) ^ k" and "640 \<le> lim"
    and "list_all spec_hex_digit ds" and "0 < spec_hex_value ds"
  shows "main lim
      (replies (Inr \<lparr>status_code = c,
         body_json = Inr (PyDict [(''result'', PyStr (''-0x'' @ ds @ replicate k (CHR ''0'')))])\<rparr>)) s =
     (Unhandled ValueError,
      s\<lparr>sent := sent s @ [the_request],
        block_number := Some (- int (spec_hex_value (ds @ replicate k (CHR ''0''))))\<rparr>)"
proof -
  have ne: "ds @ replicate k (CHR ''0'') \<noteq> []"
    using assms(4) by (auto simp: spec_hex_value_def)
  have "PyLong_FromUnicodeObject ([] @ ''-0x'' @ (ds @ replicate k (CHR ''0'')) @ []) =
        Inr (- int (spec_hex_value (ds @ replicate k (CHR ''0''))))"
    using hex_zeros [OF assms(3)] ne by (intro int_minus_0x) simp_all
  then have parse: "int_base16 (PyStr (''-0x'' @ ds @ replicate k (CHR ''0''))) =
        Inr (- int (spec_hex_value (ds @ replicate k (CHR ''0''))))"
    by simp
  show ?thesis
    using main_beyond_limit
      [of "replies (Inr \<lparr>status_code = c,
         body_json = Inr (PyDict [(''result'', PyStr (''-0x'' @ ds @ replicate k (CHR ''0'')))])\<rparr>)"
        "\<lparr>status_code = c,
         body_json = Inr (PyDict [(''result'', PyStr (''-0x'' @ ds @ replicate k (CHR ''0'')))])\<rparr>"
        "PyDict [(''result'', PyStr (''-0x'' @ ds @ replicate k (CHR ''0'')))]"
        "PyStr (''-0x'' @ ds @ replicate k (CHR ''0''))"
        "- int (spec_hex_value (ds @ replicate k (CHR ''0'')))" lim s]
      parse beyond_limit(2) [OF assms(1,4)] assms(2)
    by (simp add: replies_def)
qed

lemma hex_f: "list_all spec_hex_digit ''f''" "0 < spec_hex_value ''f''"
  by (simp_all add: spec_hex_digit_def spec_hex_value_def spec_hex_digit_value_def)

lemma hex_1: "list_all spec_hex_digit ''1''" "0 < spec_hex_value ''1''"
  by (simp_all add: spec_hex_digit_def spec_hex_value_def spec_hex_digit_value_def)

lemma hex_7: "list_all spec_hex_digit ''7''" "0 < spec_hex_value ''7''"
  by (simp_all add: spec_hex_digit_def spec_hex_value_def spec_hex_digit_value_def)

lemma hex_1a2b3c: "list_all spec_hex_digit ''1a2b3c''" "spec_hex_value ''1a2b3c'' = 1715004"
  by (simp_all add: spec_hex_digit_def spec_hex_value_def spec_hex_digit_value_def)

lemma decimal_digits_1715004: "decimal_digits 1715004 = ''1715004''"
  by (simp add: decimal_defs)


text \<open>
  The separators U+001C..U+001F count as whitespace for \<^verbatim>\<open>str.isspace\<close>, but
  \<^verbatim>\<open>int\<close> does not strip them from an ASCII string.
\<close>

lemma separator_is_not_stripped: "PyLong_FromUnicodeObject [CHR 0x1C, CHR ''1''] = Inl ValueError"
  by (simp add: int_defs)

text \<open>The printed text is the decimal numeral of the integer.\<close>

lemma digit_char_cases:
  assumes "d < 10"
  shows "spec_decimal_digit (char_of (48 + d))"
    and "(of_char (char_of (48 + d) :: char) :: nat) - 48 = d"
    and "char_of (48 + d) = CHR ''0'' \<longleftrightarrow> d = 0"
    and "char_of (48 + d) \<noteq> CHR ''-''"
proof -
  from assms have "d = 0 \<or> d = 1 \<or> d = 2 \<or> d = 3 \<or> d = 4 \<or> d = 5 \<or> d = 6 \<or> d = 7 \<or> d = 8 \<or> d = 9"
    by arith
  then show "spec_decimal_digit (char_of (48 + d))"
    and "char_of (48 + d) = CHR ''0'' \<longleftrightarrow> d = 0"
    and "char_of (48 + d) \<noteq> CHR ''-''"
    by (auto simp: digit_chars spec_decimal_digit_def)
  show "(of_char (char_of (48 + d) :: char) :: nat) - 48 = d"
    using assms by (simp add: of_char_of)
qed

lemma decimal_digits_nonempty: "decimal_digits n \<noteq> []"
  by (subst decimal_digits.simps) simp

lemma decimal_digits_are_digits: "list_all spec_decimal_digit (decimal_digits n)"
proof (induction n rule: decimal_digits.induct)
  case (1 n)
  show ?case
  proof (cases "n < 10")
    case True
    then show ?thesis by (subst decimal_digits.simps) (simp add: digit_char_cases(1))
  next
    case False
    then show ?thesis using "1.IH" by (subst decimal_digits.simps) (simp add: digit_char_cases(1))
  qed
qed

lemma spec_decimal_value_snoc:
  "spec_decimal_value (ds @ [d]) = 10 * spec_decimal_value ds + (of_char d - 48)"
  by (simp add: spec_decimal_value_def)

lemma decimal_digits_value: "spec_decimal_value (decimal_digits n) = n"
proof (induction n rule: decimal_digits.induct)
  case (1 n)
  show ?case
  proof (cases "n < 10")
    case True
    then show ?thesis
      using digit_char_cases(2) [of n]
      by (subst decimal_digits.simps) (simp add: spec_decimal_value_def)
  next
    case False
    then show ?thesis
      using "1.IH" digit_char_cases(2) [of "n mod 10"]
      by (subst decimal_digits.simps) (simp add: spec_decimal_value_snoc)
  qed
qed

lemma decimal_digits_head:
  "starts_with c (decimal_digits n) \<Longrightarrow> c = CHR ''0'' \<Longrightarrow> n = 0"
proof (induction n rule: decimal_digits.induct)
  case (1 n)
  show ?case
  proof (cases "n < 10")
    case True
    then show ?thesis
      using "1.prems" digit_char_cases(3) [of n]
      by (subst (asm) decimal_digits.simps) (simp add: starts_with_def)
  next
    case False
    have "starts_with c (decimal_digits (n div 10))"
      using "1.prems"(1) False decimal_digits_nonempty [of "n div 10"]
      by (subst (asm) decimal_digits.simps) (cases "decimal_digits (n div 10)"; simp add: starts_with_def)
    then have "n div 10 = 0" using "1.IH" False "1.prems"(2) by simp
    with False show ?thesis by simp
  qed
qed

lemma decimal_digits_no_sign: "\<not> starts_with (CHR ''-'') (decimal_digits n)"
proof -
  obtain c cs where eq: "decimal_digits n = c # cs"
    using decimal_digits_nonempty [of n] by (cases "decimal_digits n") auto
  have "spec_decimal_digit c" using decimal_digits_are_digits [of n] eq by simp
  then have "c \<noteq> CHR ''-''" by (auto simp: spec_decimal_digit_def)
  with eq show ?thesis by (simp add: starts_with_def)
qed

lemma decimal_digits_length_1: "length (decimal_digits 0) = 1"
  by (subst decimal_digits.simps) simp

lemma decimal_digits_numeral: "spec_numeral (decimal_digits n) n"
  unfolding spec_numeral_def
  using decimal_digits_nonempty [of n] decimal_digits_are_digits [of n] decimal_digits_value [of n]
    decimal_digits_head [of "CHR ''0''" n] decimal_digits_length_1
  by auto

lemma decimal_text_is_the_numeral: "spec_integer_text (decimal_text n) n"
proof (cases "n < 0")
  case True
  then show ?thesis
    using decimal_digits_numeral [of "nat (- n)"]
    by (simp add: spec_integer_text_def decimal_text_def starts_with_def)
next
  case False
  then show ?thesis
    using decimal_digits_numeral [of "nat n"] decimal_digits_no_sign [of "nat n"]
    by (simp add: spec_integer_text_def decimal_text_def)
qed

lemma numeral_1715004: "spec_integer_text ''1715004'' 1715004"
  by (simp add: spec_integer_text_def spec_numeral_def spec_decimal_digit_def
      spec_decimal_value_def starts_with_def)














lemma resolve_redirects_final:
  "send wire rq = (Inr x, w) \<Longrightarrow> redirect_target x = None \<Longrightarrow>
   resolve_redirects wire k rq = (Inr (answer x), [rq], w)"
  by (cases k) simp_all




lemma direct_wire_run:
  "resolve_redirects direct_wire max_redirects the_request =
     (Inr \<lparr>status_code = 200, body_json = Inr (PyDict [(''result'', PyStr ''0x1'')])\<rparr>,
      [the_request], 5)"
  by (rule resolve_redirects_final [where x = "\<lparr>connect_wait = 2, read_waits = [3], location = None,
          answer = \<lparr>status_code = 200,
                    body_json = Inr (PyDict [(''result'', PyStr ''0x1'')])\<rparr>\<rparr>", simplified])
    (simp_all add: send_def direct_wire_def the_request_def redirect_target_def)

section \<open>The claims\<close>

text \<open>
  C1 (as amended). For every response whose result field parses as a base-16 integer
  with no more decimal digits than the interpreter's limit for converting an integer to
  text (4300 by default; no bound when the limit is 0), the process exits with code 0 if
  the decoded integer is strictly greater than 0, and with code 1 otherwise.
\<close>

theorem exit_code_follows_sign_within_digit_limit:
  assumes "net the_request = Inr r" and "body_json r = Inr j" and "getitem j ''result'' = Inr v"
    and "int_base16 v = Inr n" and "lim = 0 \<or> length (decimal_digits (nat \<bar>n\<bar>)) \<le> lim"
  shows "fst (main lim net s) = SystemExit (if 0 < n then 0 else 1) \<and>
         exit_status (fst (main lim net s)) = (if 0 < n then 0 else 1)"
  using main_within_limit [of net r j v n lim s] assms by simp

theorem exit_code_follows_sign_within_digit_limit_witness:
  "exit_status (fst (main default_max_str_digits
     (replies (Inr \<lparr>status_code = 200, body_json = Inr (PyDict [(''result'', PyStr ''0x1a2b3c'')])\<rparr>))
     initial)) = 0 \<and>
   exit_status (fst (main default_max_str_digits
     (replies (Inr \<lparr>status_code = 200, body_json = Inr (PyDict [(''result'', PyStr ''0x0'')])\<rparr>))
     initial)) = 1"
proof -
  have a: "length (decimal_digits (nat \<bar>1715004\<bar>)) \<le> default_max_str_digits"
    by (simp add: decimal_defs default_max_str_digits_def)
  have b: "length (decimal_digits (nat \<bar>0\<bar>)) \<le> default_max_str_digits"
    by (simp add: decimal_defs default_max_str_digits_def)
  show ?thesis
    using a b
      exit_code_follows_sign_within_digit_limit
        [of "replies (Inr \<lparr>status_code = 200, body_json = Inr (PyDict [(''result'', PyStr ''0x1a2b3c'')])\<rparr>)"
            "\<lparr>status_code = 200, body_json = Inr (PyDict [(''result'', PyStr ''0x1a2b3c'')])\<rparr>"
            "PyDict [(''result'', PyStr ''0x1a2b3c'')]" "PyStr ''0x1a2b3c''" 1715004
            default_max_str_digits initial]
      exit_code_follows_sign_within_digit_limit
        [of "replies (Inr \<lparr>status_code = 200, body_json = Inr (PyDict [(''result'', PyStr ''0x0'')])\<rparr>)"
            "\<lparr>status_code = 200, body_json = Inr (PyDict [(''result'', PyStr ''0x0'')])\<rparr>"
            "PyDict [(''result'', PyStr ''0x0'')]" "PyStr ''0x0''" 0
            default_max_str_digits initial]
    by (simp add: replies_def int_0x1a2b3c int_0x0)
qed

text \<open>
  The claim as stated, for every result that parses, fails beyond the digit limit: the
  result \<^verbatim>\<open>0xf\<close> followed by 3600 zeros parses as a positive integer, the f-string
  raises a ValueError under the default limit, and the process ends with status 1.
\<close>

theorem positive_height_beyond_digit_limit_exits_1:
  "int_base16 (PyStr (''0x'' @ ''f'' @ replicate 3600 (CHR ''0''))) =
     Inr (int (spec_hex_value (''f'' @ replicate 3600 (CHR ''0'')))) \<and>
   0 < spec_hex_value (''f'' @ replicate 3600 (CHR ''0'')) \<and>
   exit_status (fst (main default_max_str_digits
     (replies (Inr \<lparr>status_code = 200,
        body_json = Inr (PyDict [(''result'', PyStr (''0x'' @ ''f'' @ replicate 3600 (CHR ''0'')))])\<rparr>))
     initial)) = 1"
proof (intro conjI)
  show "int_base16 (PyStr (''0x'' @ ''f'' @ replicate 3600 (CHR ''0''))) =
     Inr (int (spec_hex_value (''f'' @ replicate 3600 (CHR ''0''))))"
    by (rule parse_zeros(1) [OF hex_f])
  show "0 < spec_hex_value (''f'' @ replicate 3600 (CHR ''0''))"
    by (rule parse_zeros(3) [OF hex_f])
  show "exit_status (fst (main default_max_str_digits
     (replies (Inr \<lparr>status_code = 200,
        body_json = Inr (PyDict [(''result'', PyStr (''0x'' @ ''f'' @ replicate 3600 (CHR ''0'')))])\<rparr>))
     initial)) = 1"
    by (simp only: run_beyond_limit [OF power_bound_default limit_640 hex_f] fst_conv exit_status.simps)
qed

text \<open>
  C2 (as amended). For every hexadecimal string with the prefix \<^verbatim>\<open>0x\<close> that
  represents a positive integer, the decoded value, the variable \<^verbatim>\<open>block_number\<close>,
  equals the integer's standard value; the process prints that value in decimal and exits
  0 when the value has no more decimal digits than the interpreter's limit (or the limit
  is 0). In particular the result \<^verbatim>\<open>"0x1a2b3c"\<close> prints
  \<^verbatim>\<open>block_number: 1715004\<close> and exits 0, under every limit.
\<close>

theorem hex_result_decodes_to_its_value:
  assumes "net the_request = Inr r" and "body_json r = Inr (PyDict kvs)"
    and "map_of kvs ''result'' = Some (PyStr (''0x'' @ ds))"
    and "list_all spec_hex_digit ds" and "ds \<noteq> []" and "0 < spec_hex_value ds"
  shows "int_base16 (PyStr (''0x'' @ ds)) = Inr (int (spec_hex_value ds)) \<and>
         block_number (snd (main lim net s)) = Some (int (spec_hex_value ds)) \<and>
         (lim = 0 \<or> length (decimal_digits (spec_hex_value ds)) \<le> lim \<longrightarrow>
            fst (main lim net s) = SystemExit 0 \<and>
            stdout (snd (main lim net s)) =
              stdout s @ [''block_number: '' @ decimal_digits (spec_hex_value ds)]) \<and>
         (ds = ''1a2b3c'' \<longrightarrow>
            fst (main lim net s) = SystemExit 0 \<and>
            stdout (snd (main lim net s)) = stdout s @ [''block_number: 1715004''])"
proof -
  have get: "getitem (PyDict kvs) ''result'' = Inr (PyStr (''0x'' @ ds))"
    using assms(3) by simp
  have parse: "int_base16 (PyStr (''0x'' @ ds)) = Inr (int (spec_hex_value ds))"
    using int_0x [of "[]" "[]" ds] assms(4,5) by simp
  have var: "block_number (snd (main lim net s)) = Some (int (spec_hex_value ds))"
    using assms(1,2) get parse by (rule block_number_after_parse)
  have shown: "decimal_text (int (spec_hex_value ds)) = decimal_digits (spec_hex_value ds)"
    by (simp add: decimal_text_def)
  have within: "fst (main lim net s) = SystemExit 0 \<and>
      stdout (snd (main lim net s)) = stdout s @ [''block_number: '' @ decimal_digits (spec_hex_value ds)]"
    if "lim = 0 \<or> length (decimal_digits (spec_hex_value ds)) \<le> lim"
    using main_within_limit [of net r "PyDict kvs" "PyStr (''0x'' @ ds)" "int (spec_hex_value ds)" lim s]
      assms(1,2,6) get parse that shown by simp
  have scenario: "fst (main lim net s) = SystemExit 0 \<and>
      stdout (snd (main lim net s)) = stdout s @ [''block_number: 1715004'']"
    if "ds = ''1a2b3c''"
  proof -
    have "long_to_decimal_string lim (int (spec_hex_value ds)) = Inr ''1715004''"
      using to_decimal_short [of "int (spec_hex_value ds)" lim]
      by (simp add: that hex_1a2b3c(2) decimal_text_1715004 decimal_digits_1715004)
    then show ?thesis
      using main_exits [of net r "PyDict kvs" "PyStr (''0x'' @ ds)" "int (spec_hex_value ds)" lim "''1715004''" s]
        assms(1,2,6) get parse by simp
  qed
  from parse var within scenario show ?thesis by blast
qed

theorem hex_result_decodes_to_its_value_witness:
  "int_base16 (PyStr (''0x'' @ ''1a2b3c'')) = Inr (int (spec_hex_value ''1a2b3c'')) \<and>
   spec_hex_value ''1a2b3c'' = 1715004 \<and>
   fst (main default_max_str_digits
     (replies (Inr \<lparr>status_code = 200, body_json = Inr (PyDict [(''result'', PyStr (''0x'' @ ''1a2b3c''))])\<rparr>))
     initial) = SystemExit 0 \<and>
   stdout (snd (main default_max_str_digits
     (replies (Inr \<lparr>status_code = 200, body_json = Inr (PyDict [(''result'', PyStr (''0x'' @ ''1a2b3c''))])\<rparr>))
     initial)) = [''block_number: 1715004'']"
proof -
  have a: "replies (Inr \<lparr>status_code = 200, body_json = Inr (PyDict [(''result'', PyStr (''0x'' @ ''1a2b3c''))])\<rparr>)
             the_request =
           Inr \<lparr>status_code = 200, body_json = Inr (PyDict [(''result'', PyStr (''0x'' @ ''1a2b3c''))])\<rparr>"
    by (simp add: replies_def)
  have b: "body_json \<lparr>status_code = 200, body_json = Inr (PyDict [(''result'', PyStr (''0x'' @ ''1a2b3c''))])\<rparr> =
           Inr (PyDict [(''result'', PyStr (''0x'' @ ''1a2b3c''))])"
    by simp
  have c: "map_of [(''result'', PyStr (''0x'' @ ''1a2b3c''))] ''result'' = Some (PyStr (''0x'' @ ''1a2b3c''))"
    by simp
  have d: "''1a2b3c'' \<noteq> []" "0 < spec_hex_value ''1a2b3c''"
    by (simp_all add: hex_1a2b3c(2))
  show ?thesis
    using a b c d hex_1a2b3c(1)
      hex_result_decodes_to_its_value
        [of "replies (Inr \<lparr>status_code = 200, body_json = Inr (PyDict [(''result'', PyStr (''0x'' @ ''1a2b3c''))])\<rparr>)"
            "\<lparr>status_code = 200, body_json = Inr (PyDict [(''result'', PyStr (''0x'' @ ''1a2b3c''))])\<rparr>"
            "[(''result'', PyStr (''0x'' @ ''1a2b3c''))]" "''1a2b3c''" default_max_str_digits initial]
    by (simp add: hex_1a2b3c(2) initial_def)
qed

text \<open>
  The claim as stated, exit 0 for every such string, fails for \<^verbatim>\<open>0x1\<close> followed
  by 3600 zeros: a hexadecimal string of a positive integer, yet the run ends with an
  unhandled ValueError and prints nothing.
\<close>

theorem hex_result_beyond_digit_limit_not_exit_0:
  "list_all spec_hex_digit (''1'' @ replicate 3600 (CHR ''0'')) \<and>
   0 < spec_hex_value (''1'' @ replicate 3600 (CHR ''0'')) \<and>
   fst (main default_max_str_digits
     (replies (Inr \<lparr>status_code = 200,
        body_json = Inr (PyDict [(''result'', PyStr (''0x'' @ ''1'' @ replicate 3600 (CHR ''0'')))])\<rparr>))
     initial) = Unhandled ValueError \<and>
   stdout (snd (main default_max_str_digits
     (replies (Inr \<lparr>status_code = 200,
        body_json = Inr (PyDict [(''result'', PyStr (''0x'' @ ''1'' @ replicate 3600 (CHR ''0'')))])\<rparr>))
     initial)) = []"
proof (intro conjI)
  show "list_all spec_hex_digit (''1'' @ replicate 3600 (CHR ''0''))"
    by (rule hex_zeros [OF hex_1(1)])
  show "0 < spec_hex_value (''1'' @ replicate 3600 (CHR ''0''))"
    by (rule parse_zeros(3) [OF hex_1])
  show "fst (main default_max_str_digits
     (replies (Inr \<lparr>status_code = 200,
        body_json = Inr (PyDict [(''result'', PyStr (''0x'' @ ''1'' @ replicate 3600 (CHR ''0'')))])\<rparr>))
     initial) = Unhandled ValueError"
    by (simp only: run_beyond_limit [OF power_bound_default limit_640 hex_1] fst_conv)
  show "stdout (snd (main default_max_str_digits
     (replies (Inr \<lparr>status_code = 200,
        body_json = Inr (PyDict [(''result'', PyStr (''0x'' @ ''1'' @ replicate 3600 (CHR ''0'')))])\<rparr>))
     initial)) = []"
    by (simp only: run_beyond_limit [OF power_bound_default limit_640 hex_1] snd_conv)
      (simp add: initial_def)
qed

text \<open>
  C3 (as amended). Every run that exits with code 1 either was ended by an unhandled
  exception, for which the interpreter's exit code is 1 as well, or was ended by the
  script with \<^verbatim>\<open>sys.exit(1)\<close> after the block height was decoded, and then the height
  is not positive: it is zero or negative, since \<^verbatim>\<open>int(s, 16)\<close> accepts a minus sign.
\<close>

theorem exit_1_means_failure_or_height_not_positive:
  assumes "exit_status (fst (main lim net s)) = 1"
  shows "(\<exists>e. fst (main lim net s) = Unhandled e) \<or>
         (fst (main lim net s) = SystemExit 1 \<and>
          (\<exists>n. block_number (snd (main lim net s)) = Some n \<and> n \<le> 0))"
proof (cases lim net s rule: main_cases)
  case (exit r j v n)
  with assms show ?thesis by (auto split: if_splits)
qed auto

theorem exit_1_means_failure_or_height_not_positive_witness:
  "exit_status (fst (main default_max_str_digits
     (replies (Inr \<lparr>status_code = 200, body_json = Inr (PyDict [(''result'', PyStr ''-0x1'')])\<rparr>))
     initial)) = 1 \<and>
   fst (main default_max_str_digits
     (replies (Inr \<lparr>status_code = 200, body_json = Inr (PyDict [(''result'', PyStr ''-0x1'')])\<rparr>))
     initial) = SystemExit 1 \<and>
   (\<exists>n. block_number (snd (main default_max_str_digits
     (replies (Inr \<lparr>status_code = 200, body_json = Inr (PyDict [(''result'', PyStr ''-0x1'')])\<rparr>))
     initial)) = Some n \<and> n \<le> 0)"
proof -
  have h: "exit_status (fst (main default_max_str_digits
     (replies (Inr \<lparr>status_code = 200, body_json = Inr (PyDict [(''result'', PyStr ''-0x1'')])\<rparr>))
     initial)) = 1"
    by (simp add: run_minus_0x1)
  have k: "\<forall>e. fst (main default_max_str_digits
     (replies (Inr \<lparr>status_code = 200, body_json = Inr (PyDict [(''result'', PyStr ''-0x1'')])\<rparr>))
     initial) \<noteq> Unhandled e"
    by (simp add: run_minus_0x1)
  show ?thesis using h k exit_1_means_failure_or_height_not_positive [OF h] by blast
qed

text \<open>
  The claim as stated, that a run with exit code 1 has decoded the height 0, fails in two
  ways. For the result \<^verbatim>\<open>"-0x1"\<close> the run exits with code 1 and the height is -1;
  and when the connection fails the run exits with code 1 and no height was decoded.
\<close>

theorem exit_1_with_negative_height_or_without_height:
  "exit_status (fst (main default_max_str_digits
     (replies (Inr \<lparr>status_code = 200, body_json = Inr (PyDict [(''result'', PyStr ''-0x1'')])\<rparr>))
     initial)) = 1 \<and>
   block_number (snd (main default_max_str_digits
     (replies (Inr \<lparr>status_code = 200, body_json = Inr (PyDict [(''result'', PyStr ''-0x1'')])\<rparr>))
     initial)) = Some (- 1) \<and>
   exit_status (fst (main default_max_str_digits (replies (Inl ConnectionError)) initial)) = 1 \<and>
   block_number (snd (main default_max_str_digits (replies (Inl ConnectionError)) initial)) = None"
proof -
  have "main default_max_str_digits (replies (Inl ConnectionError)) initial =
        (Unhandled ConnectionError, initial\<lparr>sent := sent initial @ [the_request]\<rparr>)"
    by (rule main_post_raises) (simp add: replies_def)
  then have "exit_status (fst (main default_max_str_digits (replies (Inl ConnectionError)) initial)) = 1 \<and>
      block_number (snd (main default_max_str_digits (replies (Inl ConnectionError)) initial)) = None"
    by (simp add: initial_def)
  then show ?thesis by (simp add: run_minus_0x1)
qed

text \<open>
  C4 (as amended). When the connection fails, that is when \<^verbatim>\<open>requests.post\<close> raises,
  the process ends with the unhandled exception, a non-zero status and nothing printed.
  The status code of a response is never read: two responses with the same body give the
  same run, whatever their status codes. A response whose body is not JSON, as an error
  page is, ends the run with an unhandled JSONDecodeError, a non-zero status and nothing
  printed (and so does any other exception that \<^verbatim>\<open>response.json()\<close> raises).
\<close>

theorem connection_failure_fails_and_status_is_ignored:
  "(net the_request = Inl e \<longrightarrow>
      fst (main lim net s) = Unhandled e \<and> exit_status (fst (main lim net s)) \<noteq> 0 \<and>
      stdout (snd (main lim net s)) = stdout s) \<and>
   (net1 the_request = Inr r1 \<and> net2 the_request = Inr r2 \<and> body_json r1 = body_json r2 \<longrightarrow>
      main lim net1 s = main lim net2 s) \<and>
   (net1 the_request = Inr r1 \<and> body_json r1 = Inl e1 \<longrightarrow>
      fst (main lim net1 s) = Unhandled e1 \<and>
      exit_status (fst (main lim net1 s)) \<noteq> 0 \<and>
      stdout (snd (main lim net1 s)) = stdout s)"
proof (intro conjI impI)
  assume "net1 the_request = Inr r1 \<and> net2 the_request = Inr r2 \<and> body_json r1 = body_json r2"
  then show "main lim net1 s = main lim net2 s"
    using main_depends_on_body_only [of net1 r1 net2 r2 lim s] by blast
qed (simp_all add: main_post_raises main_not_json)

theorem connection_failure_fails_and_status_is_ignored_witness:
  "(replies (Inl ConnectionError) the_request = Inl ConnectionError \<and>
    fst (main default_max_str_digits (replies (Inl ConnectionError)) initial) = Unhandled ConnectionError \<and>
    exit_status (fst (main default_max_str_digits (replies (Inl ConnectionError)) initial)) \<noteq> 0 \<and>
    stdout (snd (main default_max_str_digits (replies (Inl ConnectionError)) initial)) = []) \<and>
   (main default_max_str_digits
      (replies (Inr \<lparr>status_code = 500, body_json = Inr (PyDict [(''result'', PyStr ''0x1'')])\<rparr>)) initial =
    main default_max_str_digits
      (replies (Inr \<lparr>status_code = 200, body_json = Inr (PyDict [(''result'', PyStr ''0x1'')])\<rparr>)) initial) \<and>
   (fst (main default_max_str_digits (replies (Inr \<lparr>status_code = 500, body_json = Inl JSONDecodeError\<rparr>)) initial) =
      Unhandled JSONDecodeError \<and>
    stdout (snd (main default_max_str_digits (replies (Inr \<lparr>status_code = 500, body_json = Inl JSONDecodeError\<rparr>)) initial)) = [])"
proof -
  have a: "replies (Inl ConnectionError) the_request = Inl ConnectionError"
    by (simp add: replies_def)
  have b: "replies (Inr \<lparr>status_code = 500, body_json = Inr (PyDict [(''result'', PyStr ''0x1'')])\<rparr>) the_request
             = Inr \<lparr>status_code = 500, body_json = Inr (PyDict [(''result'', PyStr ''0x1'')])\<rparr> \<and>
           replies (Inr \<lparr>status_code = 200, body_json = Inr (PyDict [(''result'', PyStr ''0x1'')])\<rparr>) the_request
             = Inr \<lparr>status_code = 200, body_json = Inr (PyDict [(''result'', PyStr ''0x1'')])\<rparr> \<and>
           body_json \<lparr>status_code = 500, body_json = Inr (PyDict [(''result'', PyStr ''0x1'')])\<rparr> =
           body_json \<lparr>status_code = 200, body_json = Inr (PyDict [(''result'', PyStr ''0x1'')])\<rparr>"
    by (simp add: replies_def)
  have c: "replies (Inr \<lparr>status_code = 500, body_json = Inl JSONDecodeError\<rparr>) the_request = Inr \<lparr>status_code = 500, body_json = Inl JSONDecodeError\<rparr> \<and>
           body_json \<lparr>status_code = 500, body_json = Inl JSONDecodeError\<rparr> = Inl JSONDecodeError"
    by (simp add: replies_def)
  show ?thesis
    using a b c
      connection_failure_fails_and_status_is_ignored
        [of "replies (Inl ConnectionError)" ConnectionError default_max_str_digits initial
            "replies (Inr \<lparr>status_code = 500, body_json = Inr (PyDict [(''result'', PyStr ''0x1'')])\<rparr>)"
            "\<lparr>status_code = 500, body_json = Inr (PyDict [(''result'', PyStr ''0x1'')])\<rparr>"
            "replies (Inr \<lparr>status_code = 200, body_json = Inr (PyDict [(''result'', PyStr ''0x1'')])\<rparr>)"
            "\<lparr>status_code = 200, body_json = Inr (PyDict [(''result'', PyStr ''0x1'')])\<rparr>"
            JSONDecodeError]
      connection_failure_fails_and_status_is_ignored
        [of "replies (Inl ConnectionError)" ConnectionError default_max_str_digits initial
            "replies (Inr \<lparr>status_code = 500, body_json = Inl JSONDecodeError\<rparr>)"
            "\<lparr>status_code = 500, body_json = Inl JSONDecodeError\<rparr>"
            "replies (Inr \<lparr>status_code = 500, body_json = Inl JSONDecodeError\<rparr>)"
            "\<lparr>status_code = 500, body_json = Inl JSONDecodeError\<rparr>"
            JSONDecodeError]
    by (simp add: initial_def)
qed

text \<open>
  The claim as stated fails for a response with status 500 whose body is
  \<^verbatim>\<open>{"result": "0x1"}\<close>: the success line is printed and the exit code is 0.
\<close>

theorem http_500_with_result_exits_0:
  "status_code \<lparr>status_code = 500, body_json = Inr (PyDict [(''result'', PyStr ''0x1'')])\<rparr> = 500 \<and>
   exit_status (fst (main default_max_str_digits
     (replies (Inr \<lparr>status_code = 500, body_json = Inr (PyDict [(''result'', PyStr ''0x1'')])\<rparr>))
     initial)) = 0 \<and>
   stdout (snd (main default_max_str_digits
     (replies (Inr \<lparr>status_code = 500, body_json = Inr (PyDict [(''result'', PyStr ''0x1'')])\<rparr>))
     initial)) = [''block_number: 1'']"
proof -
  have "long_to_decimal_string default_max_str_digits 1 = Inr ''1''"
    by (simp add: long_to_decimal_string_def decimal_text_1)
  then show ?thesis
    using main_exits [of "replies (Inr \<lparr>status_code = 500, body_json = Inr (PyDict [(''result'', PyStr ''0x1'')])\<rparr>)"
        "\<lparr>status_code = 500, body_json = Inr (PyDict [(''result'', PyStr ''0x1'')])\<rparr>"
        "PyDict [(''result'', PyStr ''0x1'')]" "PyStr ''0x1''" 1 default_max_str_digits "''1''" initial]
    by (simp add: replies_def initial_def int_0x1)
qed

text \<open>
  C5. For a result value of \<^verbatim>\<open>"0x0"\<close> the process prints the line
  \<^verbatim>\<open>block_number: 0\<close> and exits with code 1: the line is printed on the exit-1 path
  too. This holds whatever the status code, the other keys of the body and the digit
  limit of the interpreter are.
\<close>

theorem zero_height_prints_and_exits_1:
  assumes "net the_request = Inr r" and "body_json r = Inr (PyDict kvs)"
    and "map_of kvs ''result'' = Some (PyStr ''0x0'')"
  shows "stdout (snd (main lim net s)) = stdout s @ [''block_number: 0''] \<and>
         fst (main lim net s) = SystemExit 1 \<and>
         exit_status (fst (main lim net s)) = 1"
proof -
  have "getitem (PyDict kvs) ''result'' = Inr (PyStr ''0x0'')"
    using assms(3) by simp
  moreover have "int_base16 (PyStr ''0x0'') = Inr 0"
    by (simp add: int_0x0)
  moreover have "long_to_decimal_string lim 0 = Inr ''0''"
    using to_decimal_short [of 0 lim] by (simp add: decimal_text_0 decimal_digits.simps [of 0])
  ultimately show ?thesis
    using main_exits [of net r "PyDict kvs" "PyStr ''0x0''" 0 lim "''0''" s] assms(1,2) by simp
qed

theorem zero_height_prints_and_exits_1_witness:
  "stdout (snd (main default_max_str_digits
      (replies (Inr \<lparr>status_code = 200,
                      body_json = Inr (PyDict [(''jsonrpc'', PyStr ''2.0''), (''id'', PyInt 1),
                                                (''result'', PyStr ''0x0'')])\<rparr>))
      initial)) = [''block_number: 0''] \<and>
   exit_status (fst (main default_max_str_digits
      (replies (Inr \<lparr>status_code = 200,
                      body_json = Inr (PyDict [(''jsonrpc'', PyStr ''2.0''), (''id'', PyInt 1),
                                                (''result'', PyStr ''0x0'')])\<rparr>))
      initial)) = 1"
  using zero_height_prints_and_exits_1
    [of "replies (Inr \<lparr>status_code = 200,
                      body_json = Inr (PyDict [(''jsonrpc'', PyStr ''2.0''), (''id'', PyInt 1),
                                                (''result'', PyStr ''0x0'')])\<rparr>)"
        "\<lparr>status_code = 200,
                      body_json = Inr (PyDict [(''jsonrpc'', PyStr ''2.0''), (''id'', PyInt 1),
                                                (''result'', PyStr ''0x0'')])\<rparr>"
        "[(''jsonrpc'', PyStr ''2.0''), (''id'', PyInt 1), (''result'', PyStr ''0x0'')]"
        default_max_str_digits initial]
  by (simp add: replies_def initial_def)

text \<open>
  C6. For every JSON response body that lacks the key \<^verbatim>\<open>result\<close> the process ends
  with an unhandled exception (a KeyError for a dict), a non-zero status and no line
  printed; the same holds when the subscript fails for another reason, and when the
  value under \<^verbatim>\<open>result\<close> is not something \<^verbatim>\<open>int(_, 16)\<close> can parse.
\<close>

theorem missing_or_unparseable_result_fails:
  assumes "net the_request = Inr r" and "body_json r = Inr j"
  shows "(\<forall>kvs. j = PyDict kvs \<and> ''result'' \<notin> fst ` set kvs \<longrightarrow>
            fst (main lim net s) = Unhandled KeyError) \<and>
         (\<forall>e. getitem j ''result'' = Inl e \<longrightarrow>
            fst (main lim net s) = Unhandled e \<and> exit_status (fst (main lim net s)) \<noteq> 0 \<and>
            stdout (snd (main lim net s)) = stdout s) \<and>
         (\<forall>v e. getitem j ''result'' = Inr v \<and> int_base16 v = Inl e \<longrightarrow>
            fst (main lim net s) = Unhandled e \<and> exit_status (fst (main lim net s)) \<noteq> 0 \<and>
            stdout (snd (main lim net s)) = stdout s)"
proof (intro conjI allI impI)
  fix kvs
  assume "j = PyDict kvs \<and> ''result'' \<notin> fst ` set kvs"
  then have "getitem j ''result'' = Inl KeyError"
    by (simp add: map_of_eq_None_iff [THEN iffD2])
  then show "fst (main lim net s) = Unhandled KeyError"
    using main_no_result [of net r j KeyError lim s] assms by simp
next
  fix e
  assume e: "getitem j ''result'' = Inl e"
  show "fst (main lim net s) = Unhandled e"
    and "exit_status (fst (main lim net s)) \<noteq> 0"
    and "stdout (snd (main lim net s)) = stdout s"
    using main_no_result [of net r j e lim s] assms e by simp_all
next
  fix v e
  assume "getitem j ''result'' = Inr v \<and> int_base16 v = Inl e"
  then show "fst (main lim net s) = Unhandled e"
    and "exit_status (fst (main lim net s)) \<noteq> 0"
    and "stdout (snd (main lim net s)) = stdout s"
    using main_not_int [of net r j v e lim s] assms by simp_all
qed

theorem missing_or_unparseable_result_fails_witness:
  "(fst (main default_max_str_digits
      (replies (Inr \<lparr>status_code = 200,
                      body_json = Inr (PyDict [(''jsonrpc'', PyStr ''2.0''), (''id'', PyInt 1)])\<rparr>))
      initial) = Unhandled KeyError \<and>
    stdout (snd (main default_max_str_digits
      (replies (Inr \<lparr>status_code = 200,
                      body_json = Inr (PyDict [(''jsonrpc'', PyStr ''2.0''), (''id'', PyInt 1)])\<rparr>))
      initial)) = []) \<and>
   (fst (main default_max_str_digits
      (replies (Inr \<lparr>status_code = 200, body_json = Inr (PyDict [(''result'', PyStr ''0xzz'')])\<rparr>))
      initial) = Unhandled ValueError \<and>
    stdout (snd (main default_max_str_digits
      (replies (Inr \<lparr>status_code = 200, body_json = Inr (PyDict [(''result'', PyStr ''0xzz'')])\<rparr>))
      initial)) = [])"
proof -
  have a: "replies (Inr \<lparr>status_code = 200,
                      body_json = Inr (PyDict [(''jsonrpc'', PyStr ''2.0''), (''id'', PyInt 1)])\<rparr>) the_request =
           Inr \<lparr>status_code = 200,
                      body_json = Inr (PyDict [(''jsonrpc'', PyStr ''2.0''), (''id'', PyInt 1)])\<rparr>"
    by (simp add: replies_def)
  have b: "replies (Inr \<lparr>status_code = 200, body_json = Inr (PyDict [(''result'', PyStr ''0xzz'')])\<rparr>) the_request =
           Inr \<lparr>status_code = 200, body_json = Inr (PyDict [(''result'', PyStr ''0xzz'')])\<rparr>"
    by (simp add: replies_def)
  have c: "getitem (PyDict [(''result'', PyStr ''0xzz'')]) ''result'' = Inr (PyStr ''0xzz'') \<and>
           int_base16 (PyStr ''0xzz'') = Inl ValueError"
    by (simp add: int_0xzz)
  show ?thesis
    using c
      missing_or_unparseable_result_fails
        [of "replies (Inr \<lparr>status_code = 200,
                      body_json = Inr (PyDict [(''jsonrpc'', PyStr ''2.0''), (''id'', PyInt 1)])\<rparr>)"
            "\<lparr>status_code = 200,
                      body_json = Inr (PyDict [(''jsonrpc'', PyStr ''2.0''), (''id'', PyInt 1)])\<rparr>"
            "PyDict [(''jsonrpc'', PyStr ''2.0''), (''id'', PyInt 1)]"
            default_max_str_digits initial, OF a]
      missing_or_unparseable_result_fails
        [of "replies (Inr \<lparr>status_code = 200, body_json = Inr (PyDict [(''result'', PyStr ''0xzz'')])\<rparr>)"
            "\<lparr>status_code = 200, body_json = Inr (PyDict [(''result'', PyStr ''0xzz'')])\<rparr>"
            "PyDict [(''result'', PyStr ''0xzz'')]"
            default_max_str_digits initial, OF b]
    by (simp add: initial_def)
qed

text \<open>
  C7. Every run that reaches the positivity decision, that is every run ended by
  \<^verbatim>\<open>sys.exit\<close>, has written exactly one line, \<^verbatim>\<open>block_number: \<close> followed by the
  decimal numeral of the decoded integer (digits without a leading zero, a minus sign in
  front for a negative integer). A run ended by an exception has written nothing, and a
  run that has written something got a response, found the result and parsed it.
\<close>

theorem one_line_only_after_parsing:
  "(\<forall>c. fst (main lim net s) = SystemExit c \<longrightarrow>
      (\<exists>n. block_number (snd (main lim net s)) = Some n \<and>
           stdout (snd (main lim net s)) = stdout s @ [''block_number: '' @ decimal_text n] \<and>
           spec_integer_text (decimal_text n) n)) \<and>
   (\<forall>e. fst (main lim net s) = Unhandled e \<longrightarrow> stdout (snd (main lim net s)) = stdout s) \<and>
   (stdout (snd (main lim net s)) \<noteq> stdout s \<longrightarrow>
      (\<exists>r j v n. net the_request = Inr r \<and> body_json r = Inr j \<and>
                 getitem j ''result'' = Inr v \<and> int_base16 v = Inr n))"
proof (cases lim net s rule: main_cases)
  case (post e)
  then show ?thesis by simp
next
  case (fault e)
  then show ?thesis by simp
next
  case (format r j v n e)
  then show ?thesis by simp
next
  case (exit r j v n)
  then have "\<exists>r j v n. net the_request = Inr r \<and> body_json r = Inr j \<and>
                 getitem j ''result'' = Inr v \<and> int_base16 v = Inr n"
    by blast
  with exit(6) decimal_text_is_the_numeral [of n] show ?thesis by simp
qed

theorem one_line_only_after_parsing_witness:
  "fst (main default_max_str_digits
      (replies (Inr \<lparr>status_code = 200, body_json = Inr (PyDict [(''result'', PyStr ''0x1a2b3c'')])\<rparr>))
      initial) = SystemExit 0 \<and>
   block_number (snd (main default_max_str_digits
      (replies (Inr \<lparr>status_code = 200, body_json = Inr (PyDict [(''result'', PyStr ''0x1a2b3c'')])\<rparr>))
      initial)) = Some 1715004 \<and>
   stdout (snd (main default_max_str_digits
      (replies (Inr \<lparr>status_code = 200, body_json = Inr (PyDict [(''result'', PyStr ''0x1a2b3c'')])\<rparr>))
      initial)) = [''block_number: 1715004''] \<and>
   spec_integer_text ''1715004'' 1715004 \<and>
   fst (main default_max_str_digits (replies (Inl Timeout)) initial) = Unhandled Timeout \<and>
   stdout (snd (main default_max_str_digits (replies (Inl Timeout)) initial)) = []"
proof -
  have a: "fst (main default_max_str_digits
      (replies (Inr \<lparr>status_code = 200, body_json = Inr (PyDict [(''result'', PyStr ''0x1a2b3c'')])\<rparr>))
      initial) = SystemExit 0"
    by (simp add: run_0x1a2b3c)
  have b: "fst (main default_max_str_digits (replies (Inl Timeout)) initial) = Unhandled Timeout"
    by (simp add: main_post_raises replies_def)
  have c: "block_number (snd (main default_max_str_digits
      (replies (Inr \<lparr>status_code = 200, body_json = Inr (PyDict [(''result'', PyStr ''0x1a2b3c'')])\<rparr>))
      initial)) = Some 1715004"
    by (simp add: run_0x1a2b3c)
  show ?thesis
    using a b c
      one_line_only_after_parsing [of default_max_str_digits
        "replies (Inr \<lparr>status_code = 200, body_json = Inr (PyDict [(''result'', PyStr ''0x1a2b3c'')])\<rparr>)" initial]
      one_line_only_after_parsing [of default_max_str_digits "replies (Inl Timeout)" initial]
    by (simp add: decimal_text_1715004 initial_def)
qed







text \<open>
  C10 (as amended). For every result string \<^verbatim>\<open>-0x\<close> followed by the hexadecimal
  digits of a positive integer, parsing succeeds with the negative value; when that value
  has no more decimal digits than the interpreter's limit (or the limit is 0), the process
  prints \<^verbatim>\<open>block_number: \<close> with the negative integer and exits by
  \<^verbatim>\<open>sys.exit(1)\<close>.
\<close>

theorem negative_hex_result_exits_1_within_digit_limit:
  assumes "net the_request = Inr r" and "body_json r = Inr (PyDict kvs)"
    and "map_of kvs ''result'' = Some (PyStr (''-0x'' @ ds))"
    and "list_all spec_hex_digit ds" and "ds \<noteq> []" and "0 < spec_hex_value ds"
  shows "int_base16 (PyStr (''-0x'' @ ds)) = Inr (- int (spec_hex_value ds)) \<and>
         block_number (snd (main lim net s)) = Some (- int (spec_hex_value ds)) \<and>
         (lim = 0 \<or> length (decimal_digits (spec_hex_value ds)) \<le> lim \<longrightarrow>
            fst (main lim net s) = SystemExit 1 \<and>
            stdout (snd (main lim net s)) =
              stdout s @ [''block_number: -'' @ decimal_digits (spec_hex_value ds)])"
proof -
  have get: "getitem (PyDict kvs) ''result'' = Inr (PyStr (''-0x'' @ ds))"
    using assms(3) by simp
  have parse: "int_base16 (PyStr (''-0x'' @ ds)) = Inr (- int (spec_hex_value ds))"
    using int_minus_0x [of "[]" "[]" ds] assms(4,5) by simp
  have var: "block_number (snd (main lim net s)) = Some (- int (spec_hex_value ds))"
    using assms(1,2) get parse by (rule block_number_after_parse)
  have shown: "decimal_text (- int (spec_hex_value ds)) = ''-'' @ decimal_digits (spec_hex_value ds)"
    using assms(6) by (simp add: decimal_text_def)
  have within: "fst (main lim net s) = SystemExit 1 \<and>
      stdout (snd (main lim net s)) = stdout s @ [''block_number: -'' @ decimal_digits (spec_hex_value ds)]"
    if "lim = 0 \<or> length (decimal_digits (spec_hex_value ds)) \<le> lim"
    using main_within_limit [of net r "PyDict kvs" "PyStr (''-0x'' @ ds)" "- int (spec_hex_value ds)" lim s]
      assms(1,2,6) get parse that shown by simp
  from parse var within show ?thesis by blast
qed

theorem negative_hex_result_exits_1_within_digit_limit_witness:
  "int_base16 (PyStr (''-0x'' @ ''1'')) = Inr (- 1) \<and>
   fst (main default_max_str_digits
     (replies (Inr \<lparr>status_code = 200, body_json = Inr (PyDict [(''result'', PyStr (''-0x'' @ ''1''))])\<rparr>))
     initial) = SystemExit 1 \<and>
   stdout (snd (main default_max_str_digits
     (replies (Inr \<lparr>status_code = 200, body_json = Inr (PyDict [(''result'', PyStr (''-0x'' @ ''1''))])\<rparr>))
     initial)) = [''block_number: -1'']"
proof -
  have a: "replies (Inr \<lparr>status_code = 200, body_json = Inr (PyDict [(''result'', PyStr (''-0x'' @ ''1''))])\<rparr>)
             the_request =
           Inr \<lparr>status_code = 200, body_json = Inr (PyDict [(''result'', PyStr (''-0x'' @ ''1''))])\<rparr>"
    by (simp add: replies_def)
  have b: "spec_hex_value ''1'' = 1" "decimal_digits 1 = ''1''" "''1'' \<noteq> []"
    by (simp_all add: spec_hex_value_def spec_hex_digit_value_def decimal_defs)
  show ?thesis
    using a b hex_1
      negative_hex_result_exits_1_within_digit_limit
        [of "replies (Inr \<lparr>status_code = 200, body_json = Inr (PyDict [(''result'', PyStr (''-0x'' @ ''1''))])\<rparr>)"
            "\<lparr>status_code = 200, body_json = Inr (PyDict [(''result'', PyStr (''-0x'' @ ''1''))])\<rparr>"
            "[(''result'', PyStr (''-0x'' @ ''1''))]" "''1''" default_max_str_digits initial]
    by (simp add: initial_def default_max_str_digits_def)
qed

text \<open>
  The claim as stated, a printed line and \<^verbatim>\<open>sys.exit(1)\<close> for every negative value,
  fails for \<^verbatim>\<open>-0x7\<close> followed by 3600 zeros: parsing succeeds, but the run ends with
  an unhandled ValueError and prints nothing.
\<close>

theorem negative_height_beyond_digit_limit_prints_nothing:
  "int_base16 (PyStr (''-0x'' @ ''7'' @ replicate 3600 (CHR ''0''))) =
     Inr (- int (spec_hex_value (''7'' @ replicate 3600 (CHR ''0'')))) \<and>
   0 < spec_hex_value (''7'' @ replicate 3600 (CHR ''0'')) \<and>
   fst (main default_max_str_digits
     (replies (Inr \<lparr>status_code = 200,
        body_json = Inr (PyDict [(''result'', PyStr (''-0x'' @ ''7'' @ replicate 3600 (CHR ''0'')))])\<rparr>))
     initial) = Unhandled ValueError \<and>
   stdout (snd (main default_max_str_digits
     (replies (Inr \<lparr>status_code = 200,
        body_json = Inr (PyDict [(''result'', PyStr (''-0x'' @ ''7'' @ replicate 3600 (CHR ''0'')))])\<rparr>))
     initial)) = []"
proof (intro conjI)
  show "int_base16 (PyStr (''-0x'' @ ''7'' @ replicate 3600 (CHR ''0''))) =
     Inr (- int (spec_hex_value (''7'' @ replicate 3600 (CHR ''0''))))"
    by (rule parse_zeros(2) [OF hex_7])
  show "0 < spec_hex_value (''7'' @ replicate 3600 (CHR ''0''))"
    by (rule parse_zeros(3) [OF hex_7])
  show "fst (main default_max_str_digits
     (replies (Inr \<lparr>status_code = 200,
        body_json = Inr (PyDict [(''result'', PyStr (''-0x'' @ ''7'' @ replicate 3600 (CHR ''0'')))])\<rparr>))
     initial) = Unhandled ValueError"
    by (simp only: run_beyond_limit_minus [OF power_bound_default limit_640 hex_7] fst_conv)
  show "stdout (snd (main default_max_str_digits
     (replies (Inr \<lparr>status_code = 200,
        body_json = Inr (PyDict [(''result'', PyStr (''-0x'' @ ''7'' @ replicate 3600 (CHR ''0'')))])\<rparr>))
     initial)) = []"
    by (simp only: run_beyond_limit_minus [OF power_bound_default limit_640 hex_7] snd_conv)
      (simp add: initial_def)
qed

end
